theory Spec2Isabelle
  imports Complex_Main
begin

section \<open>JavaScript values, strings and numbers\<close>

text \<open>
  The services are Express applications.  A request body is parsed JSON, so a body
  field is a JSON value, or \<open>undefined\<close> when the field is absent.  A finite number is
  modelled as the rational it is; \<open>Infinity\<close> (a JSON number beyond the doubles) and
  \<open>NaN\<close> (which \<open>parseInt\<close> can produce) are values of their own.  Strings are lists of
  8-bit characters, read as the code units U+0000 to U+00FF.
\<close>

datatype jsval =
    JUndefined
  | JNull
  | JBool bool
  | JNum rat
  | JInfinity bool
  | JNaN
  | JStr string
  | JArr "jsval list"
  | JObj "(string \<times> jsval) list"

text \<open>ToBoolean: what \<open>!v\<close> and \<open>v || w\<close> test.\<close>

fun truthy :: "jsval \<Rightarrow> bool" where
  "truthy JUndefined = False"
| "truthy JNull = False"
| "truthy (JBool b) = b"
| "truthy (JNum r) = (r \<noteq> 0)"
| "truthy (JInfinity _) = True"
| "truthy JNaN = False"
| "truthy (JStr s) = (s \<noteq> [])"
| "truthy (JArr _) = True"
| "truthy (JObj _) = True"

text \<open>\<open>v.name\<close>: a TypeError (\<open>None\<close>) on \<open>undefined\<close> and \<open>null\<close>, the member of an
  object literal, \<open>undefined\<close> on every other value (no member of a primitive's or an
  array's prototype is read by the code).\<close>

fun get_prop :: "jsval \<Rightarrow> string \<Rightarrow> jsval option" where
  "get_prop JUndefined k = None"
| "get_prop JNull k = None"
| "get_prop (JObj kvs) k = Some (case map_of kvs k of None \<Rightarrow> JUndefined | Some v \<Rightarrow> v)"
| "get_prop v k = Some JUndefined"

text \<open>\<open>s.split(c)\<close> for a one-character separator: the fields between the separators,
  empty fields included.  The result is never empty, so the first branch of the
  \<open>case\<close> is never taken.\<close>

fun split_on :: "char \<Rightarrow> string \<Rightarrow> string list" where
  "split_on c [] = [[]]"
| "split_on c (x # xs) =
     (if x = c then [] # split_on c xs
      else (case split_on c xs of [] \<Rightarrow> [[x]] | y # ys \<Rightarrow> (x # y) # ys))"

text \<open>\<open>xs[i]\<close>: \<open>undefined\<close> (\<open>None\<close>) out of range.\<close>

definition index :: "'a list \<Rightarrow> nat \<Rightarrow> 'a option" where
  "index xs i = (if i < length xs then Some (xs ! i) else None)"

text \<open>White space and line terminators that \<open>Number(s)\<close> and \<open>parseInt(s)\<close> skip, among
  the code units below U+0100: TAB, LF, VT, FF, CR, SP, NBSP.\<close>

definition is_ws :: "char \<Rightarrow> bool" where
  "is_ws c \<longleftrightarrow> c \<in> set [CHR 0x09, CHR 0x0A, CHR 0x0B, CHR 0x0C, CHR 0x0D, CHR 0x20, CHR 0xA0]"

definition is_digit :: "char \<Rightarrow> bool" where
  "is_digit c \<longleftrightarrow> c \<in> set ''0123456789''"

definition digit_val :: "char \<Rightarrow> nat" where
  "digit_val c = of_char c - 48"

definition digits_val :: "string \<Rightarrow> nat" where
  "digits_val ds = foldl (\<lambda>a c. 10 * a + digit_val c) 0 ds"

text \<open>The number an integer becomes: itself up to \<open>2^53\<close>; beyond, the nearest double,
  that is the nearest multiple of \<open>2^e\<close> that leaves 53 bits, a tie going to the even one;
  \<open>Infinity\<close> (\<open>None\<close>) when that is \<open>2^1024\<close> or more.\<close>

fun bit_length :: "nat \<Rightarrow> nat" where
  "bit_length n = (if n = 0 then 0 else Suc (bit_length (n div 2)))"

declare bit_length.simps [simp del]

definition to_double :: "nat \<Rightarrow> nat option" where
  "to_double n =
     (if n \<le> 2 ^ 53 then Some n
      else
        (let e = bit_length n - 53;
             q = n div 2 ^ e;
             r = n mod 2 ^ e;
             h = 2 ^ (e - 1);
             q' = (if h < r \<or> (r = h \<and> odd q) then q + 1 else q);
             v = q' * 2 ^ e
         in if 2 ^ 1024 \<le> v then None else Some v))"

text \<open>\<open>parseInt(s, 10)\<close> on a string: leading white space is skipped, then an optional
  sign, then the longest run of decimal digits; \<open>NaN\<close> when that run is empty, and
  otherwise the number the digits become.\<close>

definition parseInt :: "string \<Rightarrow> jsval" where
  "parseInt s =
     (let t = dropWhile is_ws s;
          neg = (t \<noteq> [] \<and> hd t = CHR ''-'');
          u = (if t \<noteq> [] \<and> (hd t = CHR ''-'' \<or> hd t = CHR ''+'') then tl t else t);
          ds = takeWhile is_digit u
      in if ds = [] then JNaN
         else (case to_double (digits_val ds) of
                 None \<Rightarrow> JInfinity neg
               | Some v \<Rightarrow> JNum (of_int (if neg then - int v else int v))))"

text \<open>\<open>isNaN(s)\<close> on a string is whether \<open>Number(s)\<close> is \<open>NaN\<close>: the string, trimmed, is
  neither empty nor a numeric literal (a signed decimal literal with optional fraction
  and exponent, \<open>Infinity\<close>, or an unsigned hexadecimal, octal or binary integer).\<close>

definition trim :: "string \<Rightarrow> string" where
  "trim s = rev (dropWhile is_ws (rev (dropWhile is_ws s)))"

definition digits1 :: "string \<Rightarrow> bool" where
  "digits1 s \<longleftrightarrow> s \<noteq> [] \<and> list_all is_digit s"

definition signed_integer :: "string \<Rightarrow> bool" where
  "signed_integer s \<longleftrightarrow>
     (if s \<noteq> [] \<and> (hd s = CHR ''+'' \<or> hd s = CHR ''-'') then digits1 (tl s) else digits1 s)"

definition exponent_opt :: "string \<Rightarrow> bool" where
  "exponent_opt s \<longleftrightarrow>
     s = [] \<or> ((hd s = CHR ''e'' \<or> hd s = CHR ''E'') \<and> signed_integer (tl s))"

definition unsigned_decimal :: "string \<Rightarrow> bool" where
  "unsigned_decimal s \<longleftrightarrow>
     s = ''Infinity'' \<or>
     (let ip = takeWhile is_digit s; r = dropWhile is_digit s
      in if r \<noteq> [] \<and> hd r = CHR ''.''
         then (let fp = takeWhile is_digit (tl r); e = dropWhile is_digit (tl r)
               in (ip \<noteq> [] \<or> fp \<noteq> []) \<and> exponent_opt e)
         else ip \<noteq> [] \<and> exponent_opt r)"

definition str_decimal :: "string \<Rightarrow> bool" where
  "str_decimal s \<longleftrightarrow>
     (if s \<noteq> [] \<and> (hd s = CHR ''+'' \<or> hd s = CHR ''-'') then unsigned_decimal (tl s)
      else unsigned_decimal s)"

definition non_decimal :: "string \<Rightarrow> bool" where
  "non_decimal s \<longleftrightarrow>
     (case s of
        z # x # r \<Rightarrow>
          z = CHR ''0'' \<and> r \<noteq> [] \<and>
          ((x \<in> set ''xX'' \<and> list_all (\<lambda>c. c \<in> set ''0123456789abcdefABCDEF'') r) \<or>
           (x \<in> set ''oO'' \<and> list_all (\<lambda>c. c \<in> set ''01234567'') r) \<or>
           (x \<in> set ''bB'' \<and> list_all (\<lambda>c. c \<in> set ''01'') r))
      | _ \<Rightarrow> False)"

definition isNaN :: "string \<Rightarrow> bool" where
  "isNaN s \<longleftrightarrow> (let t = trim s in \<not> (t = [] \<or> str_decimal t \<or> non_decimal t))"

text \<open>\<open>Number.isInteger(v)\<close>, the comparison \<open>v <= 0\<close> on a number (the code makes it
  only on a value that passed \<open>Number.isInteger\<close>), and the integer such a value is.\<close>

fun Number_isInteger :: "jsval \<Rightarrow> bool" where
  "Number_isInteger (JNum r) = (r = of_int \<lfloor>r\<rfloor>)"
| "Number_isInteger _ = False"

fun num_le0 :: "jsval \<Rightarrow> bool" where
  "num_le0 (JNum r) = (r \<le> 0)"
| "num_le0 (JInfinity negative) = negative"
| "num_le0 _ = False"

fun int_of :: "jsval \<Rightarrow> int" where
  "int_of (JNum r) = \<lfloor>r\<rfloor>"
| "int_of _ = 0"

text \<open>\<open>String(n)\<close> for an integer-valued number: its decimal digits up to \<open>2^53\<close>.
  Between \<open>2^53\<close> and \<open>10^21\<close> the engine writes the shortest digits that read back as
  the same double, padded with zeros, where this definition writes all digits of \<open>n\<close>;
  for a double \<open>n\<close> both read back as \<open>n\<close>.  From \<open>10^21\<close> on the engine writes exponent
  notation (\<open>1e+21\<close>) with the shortest digits that identify the double; that rendering
  is the parameter \<open>sci\<close>.\<close>

definition digit_char :: "nat \<Rightarrow> char" where
  "digit_char d = ''0123456789'' ! d"

fun dec_digits :: "nat \<Rightarrow> string" where
  "dec_digits n =
     (if n < 10 then [digit_char n]
      else dec_digits (n div 10) @ [digit_char (n mod 10)])"

declare dec_digits.simps [simp del]

definition Number_toString :: "(int \<Rightarrow> string) \<Rightarrow> int \<Rightarrow> string" where
  "Number_toString sci n =
     (if \<bar>n\<bar> < 10 ^ 21
      then (if n < 0 then CHR ''-'' # dec_digits (nat (- n)) else dec_digits (nat n))
      else sci n)"

section \<open>Responses, upstream calls, the environment\<close>

text \<open>A response is its status and its JSON body.  \<open>'l\<close> is the type of the cart lines a
  body can carry; the lines of a cart listing hold the two \<open>parseInt\<close> results.  \<open>NoRoute\<close>
  is the page Express writes when no route matches.\<close>

datatype 'l body =
    Error string
  | ErrorWithMessage string
  | Message string
  | MessageCart string "'l list"
  | MessageDeleted string 'l
  | CartItems "(jsval \<times> jsval) list"
  | NoRoute

datatype 'l response = Response (status: nat) (payload: "'l body")

text \<open>What a middleware does with a request: it answers, it calls \<open>next()\<close> (for the
  storefront after setting \<open>req.username\<close>), or its promise rejects with no handler, so
  that no response is written.\<close>

datatype 'l outcome = Respond "'l response" | Next "string option" | Unhandled

text \<open>An \<open>axios\<close> call resolves with the body of a 2xx response, or rejects: with the
  status of the response (\<open>error.response.status\<close>), or with no response at all.\<close>

datatype 'a axios = Resolved 'a | Rejected "nat option"

text \<open>The calls a gateway makes to the credential and role store while it
  authenticates: \<open>POST /verify-token {username, token}\<close> and \<open>POST /user/role {username}\<close>.\<close>

datatype upcall = VerifyToken string "string option" | UserRole "string option"

record env =
  TOKEN_SECRET :: "string option"
  currentDate :: string

section \<open>Token codec\<close>

text \<open>\<open>generateDynamicToken\<close>, the same in the adapter, the storefront and the
  management service: the SHA-256 hex digest of user name, current date
  (\<open>toISOString().slice(0, 10)\<close>) and secret, concatenated.  The digest is the parameter
  \<open>H\<close>.  An absent user name concatenates as the text \<open>undefined\<close>.\<close>

definition secret :: "env \<Rightarrow> string" where
  "secret e =
     (case TOKEN_SECRET e of
        None \<Rightarrow> ''default_secret''
      | Some s \<Rightarrow> if s = [] then ''default_secret'' else s)"

definition str_of :: "string option \<Rightarrow> string" where
  "str_of u = (case u of None \<Rightarrow> ''undefined'' | Some s \<Rightarrow> s)"

definition generateDynamicToken :: "(string \<Rightarrow> string) \<Rightarrow> env \<Rightarrow> string option \<Rightarrow> string" where
  "generateDynamicToken H e username = H (str_of username @ currentDate e @ secret e)"

text \<open>A header value is a string when the header is present; \<open>!h\<close> holds for an absent
  and for an empty one.\<close>

definition present :: "string option \<Rightarrow> bool" where
  "present h \<longleftrightarrow> (case h of None \<Rightarrow> False | Some s \<Rightarrow> s \<noteq> [])"

text \<open>\<open>authHeader.split(' ')[1]\<close>, evaluated only where the header is present.\<close>

definition providedToken :: "string option \<Rightarrow> string option" where
  "providedToken authHeader = index (split_on (CHR '' '') (str_of authHeader)) 1"

text \<open>What the handlers read of a request: the route, the two headers, and the two
  fields of the parsed body (\<open>undefined\<close> when the body has no such field or is empty).\<close>

record 'r request =
  route :: 'r
  authorization :: "string option"
  x_user :: "string option"
  body_itemId :: jsval
  body_quantity :: jsval

section \<open>Objects used as dictionaries\<close>

text \<open>
  \<open>global.carts\<close> and \<open>global.checkoutCompleted\<close> are object literals keyed by user name.
  A read \<open>obj[k]\<close> finds the object's own property \<open>k\<close> or, when it has none, what it
  inherits.  A fresh object inherits the members of \<open>Object.prototype\<close>: the functions
  listed here with their \<open>length\<close>, and the accessor \<open>__proto__\<close>, which reads as the
  object's prototype and, when assigned an object, replaces it.
\<close>

definition Object_prototype :: "(string \<times> nat) list" where
  "Object_prototype =
     [(''constructor'', 1), (''__defineGetter__'', 2), (''__defineSetter__'', 2),
      (''hasOwnProperty'', 1), (''__lookupGetter__'', 1), (''__lookupSetter__'', 1),
      (''isPrototypeOf'', 1), (''propertyIsEnumerable'', 1), (''toString'', 0),
      (''valueOf'', 0), (''toLocaleString'', 0)]"

text \<open>
  The handlers assign to \<open>global.carts[u]\<close> an array of lines or what they have just read
  there, so an own property holds an array, a function (of some \<open>length\<close>), a number or
  another object.  The prototype of \<open>global.carts\<close> is \<open>Object.prototype\<close> (\<open>None\<close>) until
  \<open>global.carts['__proto__'] = []\<close> makes it an array, which holds lines once they are
  pushed to it.  Through such an array the object inherits the array's indices and
  \<open>length\<close>, then the members of \<open>Array.prototype\<close>, then those of \<open>Object.prototype\<close>.
  The functions of \<open>Array.prototype\<close> differ between engine versions: they are the
  parameter \<open>ap\<close>, from name to \<open>length\<close>.
\<close>

datatype 'l cval = Arr "'l list" | VFun nat | VNum nat | VObj

record 'l carts_obj =
  own :: "string \<rightharpoonup> 'l cval"
  proto :: "'l list option"

text \<open>What a read finds: nothing, an array that is an own property, the array that is the
  prototype, a function, a number, or another object (\<open>Object.prototype\<close>, a line).\<close>

datatype 'l cref = RUndefined | ROwn "'l list" | RProto "'l list" | RFun nat | RNum nat | RObj

fun ref_of :: "'l cval \<Rightarrow> 'l cref" where
  "ref_of (Arr ls) = ROwn ls"
| "ref_of (VFun n) = RFun n"
| "ref_of (VNum n) = RNum n"
| "ref_of VObj = RObj"

text \<open>\<open>k\<close> is an index of an array of length \<open>n\<close>: the decimal digits of a number below
  \<open>n\<close>.\<close>

definition numeric_name :: "string \<Rightarrow> bool" where
  "numeric_name k \<longleftrightarrow> k \<noteq> [] \<and> list_all is_digit k \<and> dec_digits (digits_val k) = k"

definition array_index :: "string \<Rightarrow> nat \<Rightarrow> bool" where
  "array_index k n \<longleftrightarrow> numeric_name k \<and> digits_val k < n"

definition from_Object_prototype :: "string \<Rightarrow> 'l cref" where
  "from_Object_prototype k =
     (case map_of Object_prototype k of None \<Rightarrow> RUndefined | Some n \<Rightarrow> RFun n)"

definition inherited :: "(string \<rightharpoonup> nat) \<Rightarrow> 'l list option \<Rightarrow> string \<Rightarrow> 'l cref" where
  "inherited ap p k =
     (case p of
        None \<Rightarrow> from_Object_prototype k
      | Some ls \<Rightarrow>
          if array_index k (length ls) then RObj
          else if k = ''length'' then RNum (length ls)
          else (case ap k of Some n \<Rightarrow> RFun n | None \<Rightarrow> from_Object_prototype k))"

definition lookup :: "(string \<rightharpoonup> nat) \<Rightarrow> 'l carts_obj \<Rightarrow> string \<Rightarrow> 'l cref" where
  "lookup ap c k =
     (case own c k of
        Some v \<Rightarrow> ref_of v
      | None \<Rightarrow>
          if k = ''__proto__'' then (case proto c of None \<Rightarrow> RObj | Some ls \<Rightarrow> RProto ls)
          else inherited ap (proto c) k)"

text \<open>\<open>x || []\<close> as the array the handlers go on to use: \<open>None\<close> when \<open>x\<close> is truthy and
  not an array, so that \<open>push\<close>, \<open>map\<close> and \<open>findIndex\<close> are not functions of it and the
  call is a TypeError.\<close>

fun array_or_empty :: "'l cref \<Rightarrow> 'l list option" where
  "array_or_empty RUndefined = Some []"
| "array_or_empty (ROwn ls) = Some ls"
| "array_or_empty (RProto ls) = Some ls"
| "array_or_empty (RNum n) = (if n = 0 then Some [] else None)"
| "array_or_empty (RFun n) = None"
| "array_or_empty RObj = None"

text \<open>The tail of both \<open>POST /cart\<close> handlers on the object \<open>global.carts\<close>:
  \<^verbatim>\<open>global.carts[u] = global.carts[u] || []; global.carts[u].push(line)\<close>.
  The assignment makes what was read an own property (assigned to \<open>__proto__\<close>, the
  prototype stays what it is); the result is the cart after the push, or \<open>None\<close> for
  the TypeError.\<close>

definition add_line ::
  "(string \<rightharpoonup> nat) \<Rightarrow> 'l carts_obj \<Rightarrow> string \<Rightarrow> 'l \<Rightarrow> 'l list option \<times> 'l carts_obj" where
  "add_line ap c u line =
     (case lookup ap c u of
        RUndefined \<Rightarrow> (Some [line], c\<lparr>own := (own c)(u \<mapsto> Arr [line])\<rparr>)
      | ROwn ls \<Rightarrow> (Some (ls @ [line]), c\<lparr>own := (own c)(u \<mapsto> Arr (ls @ [line]))\<rparr>)
      | RProto ls \<Rightarrow> (Some (ls @ [line]), c\<lparr>proto := Some (ls @ [line])\<rparr>)
      | RNum n \<Rightarrow>
          if n = 0 then (Some [line], c\<lparr>own := (own c)(u \<mapsto> Arr [line])\<rparr>)
          else (None, c\<lparr>own := (own c)(u \<mapsto> VNum n)\<rparr>)
      | RFun n \<Rightarrow> (None, c\<lparr>own := (own c)(u \<mapsto> VFun n)\<rparr>)
      | RObj \<Rightarrow> (None, if u = ''__proto__'' then c else c\<lparr>own := (own c)(u \<mapsto> VObj)\<rparr>))"

text \<open>The gate of both \<open>POST /checkout\<close> handlers, negated:
  \<^verbatim>\<open>!(!global.carts[u] || global.carts[u].length === 0)\<close>; only an array and a function
  have a \<open>length\<close>.  Then \<open>global.carts[u] = []\<close>.\<close>

fun has_lines :: "'l cref \<Rightarrow> bool" where
  "has_lines RUndefined = False"
| "has_lines (ROwn ls) = (length ls \<noteq> 0)"
| "has_lines (RProto ls) = (length ls \<noteq> 0)"
| "has_lines (RFun n) = (n \<noteq> 0)"
| "has_lines (RNum n) = (n \<noteq> 0)"
| "has_lines RObj = True"

definition assign_array :: "'l carts_obj \<Rightarrow> string \<Rightarrow> 'l list \<Rightarrow> 'l carts_obj" where
  "assign_array c u ls =
     (if u = ''__proto__'' \<and> own c u = None then c\<lparr>proto := Some ls\<rparr>
      else c\<lparr>own := (own c)(u \<mapsto> Arr ls)\<rparr>)"

text \<open>\<open>global.checkoutCompleted\<close> holds booleans; its prototype stays \<open>Object.prototype\<close>,
  since a boolean assigned to \<open>__proto__\<close> is ignored.  A read finds the own boolean or
  an inherited member, which is truthy.\<close>

definition flag_set :: "(string \<rightharpoonup> bool) \<Rightarrow> string \<Rightarrow> bool" where
  "flag_set f u =
     (case f u of
        Some b \<Rightarrow> b
      | None \<Rightarrow> u = ''__proto__'' \<or> map_of Object_prototype u \<noteq> None)"

definition assign_flag :: "(string \<rightharpoonup> bool) \<Rightarrow> string \<Rightarrow> bool \<Rightarrow> (string \<rightharpoonup> bool)" where
  "assign_flag f u b = (if u = ''__proto__'' \<and> f u = None then f else f(u \<mapsto> b))"

section \<open>The storefront that derives the token itself\<close>

text \<open>The backend whose \<open>authMiddleware\<close> recomputes the token.  It keeps
  \<open>global.carts\<close> only: \<open>undefined\<close> (\<open>None\<close>) until \<open>POST /cart\<close> creates the object.  A
  line holds the body's values as they came.  It registers \<open>POST /cart\<close>,
  \<open>POST /checkout\<close> and \<open>POST /payment\<close>; a request to list or to remove lines matches no
  route.  An exception in a handler reaches the error handler, which answers 500.\<close>

record raw_line =
  raw_itemId :: jsval
  raw_quantity :: jsval

type_synonym basic_state = "raw_line carts_obj option"

datatype basic_route = BPostCart | BPostCheckout | BPostPayment | BGetCartItems | BDeleteCartItems

definition basic_authMiddleware ::
  "(string \<Rightarrow> string) \<Rightarrow> env \<Rightarrow> 'r request \<Rightarrow> 'l outcome" where
  "basic_authMiddleware H e req =
     (let authHeader = authorization req; username = x_user req in
      if \<not> present authHeader \<or> \<not> present username
      then Respond (Response 401 (Error ''Missing Authorization or X-User header''))
      else if providedToken authHeader \<noteq> Some (generateDynamicToken H e username)
      then Respond (Response 403 (Error ''Invalid or expired token''))
      else Next username)"

definition basic_post_cart ::
  "(string \<rightharpoonup> nat) \<Rightarrow> string \<Rightarrow> jsval \<Rightarrow> jsval \<Rightarrow> basic_state
     \<Rightarrow> raw_line response \<times> basic_state" where
  "basic_post_cart ap username itemId quantity carts =
     (if \<not> truthy itemId \<or> \<not> truthy quantity
      then (Response 400 (Error ''Item ID and quantity are required''), carts)
      else
        (let c = (case carts of None \<Rightarrow> \<lparr>own = Map.empty, proto = None\<rparr> | Some c \<Rightarrow> c)
         in case add_line ap c username \<lparr>raw_itemId = itemId, raw_quantity = quantity\<rparr> of
              (None, c') \<Rightarrow> (Response 500 (Error ''Internal server error''), Some c')
            | (Some cart, c') \<Rightarrow>
                (Response 200 (MessageCart ''Item added to cart'' cart), Some c')))"

definition basic_post_checkout ::
  "(string \<rightharpoonup> nat) \<Rightarrow> string \<Rightarrow> basic_state \<Rightarrow> raw_line response \<times> basic_state" where
  "basic_post_checkout ap username carts =
     (case carts of
        None \<Rightarrow> (Response 400 (Error ''Cart is empty''), carts)
      | Some c \<Rightarrow>
          if \<not> has_lines (lookup ap c username)
          then (Response 400 (Error ''Cart is empty''), carts)
          else (Response 200 (Message ''Checkout successful. Payment processed.''),
                Some (assign_array c username [])))"

definition basic_post_payment ::
  "string \<Rightarrow> basic_state \<Rightarrow> raw_line response \<times> basic_state" where
  "basic_post_payment username carts =
     (Response 200 (Message ''Payment processed successfully (simulated).''), carts)"

definition basic_serve ::
  "(string \<Rightarrow> string) \<Rightarrow> env \<Rightarrow> (string \<rightharpoonup> nat) \<Rightarrow> basic_route request \<Rightarrow> basic_state
     \<Rightarrow> raw_line response option \<times> basic_state" where
  "basic_serve H e ap req carts =
     (if route req = BGetCartItems \<or> route req = BDeleteCartItems
      then (Some (Response 404 NoRoute), carts)
      else
        (case basic_authMiddleware H e req of
           Respond r \<Rightarrow> (Some r, carts)
         | Unhandled \<Rightarrow> (None, carts)
         | Next u \<Rightarrow>
             (let (r, carts') =
                    (if route req = BPostCart
                     then basic_post_cart ap (str_of u) (body_itemId req) (body_quantity req) carts
                     else if route req = BPostCheckout
                     then basic_post_checkout ap (str_of u) carts
                     else basic_post_payment (str_of u) carts)
              in (Some r, carts'))))"

section \<open>The storefront of the mock composition\<close>

text \<open>The backend that asks the adapter to verify the token, validates a line against
  the catalog and keeps the checkout flag.  Its state is \<open>global.carts\<close>, \<open>undefined\<close>
  (\<open>None\<close>) until \<open>POST /cart\<close> creates the object, and \<open>global.checkoutCompleted\<close>, an
  object from the start.  Only \<open>POST /cart\<close> makes lines, after its checks, so a line
  holds two integers.\<close>

record cart_line =
  itemId :: int
  quantity :: int

record mock_state =
  carts :: "cart_line carts_obj option"
  checkoutCompleted :: "string \<rightharpoonup> bool"

datatype mock_route = PostCart | GetCartItems | DeleteCartItems | PostCheckout | PostPayment

definition mock_authMiddleware ::
  "(string \<Rightarrow> string option \<Rightarrow> jsval axios) \<Rightarrow> 'r request \<Rightarrow> upcall list \<times> 'l outcome" where
  "mock_authMiddleware verify req =
     (let authHeader = authorization req; username = x_user req in
      if \<not> present authHeader \<or> \<not> present username
      then ([], Respond (Response 401 (Error ''Missing Authorization or X-User header'')))
      else
        (let token = providedToken authHeader in
         ([VerifyToken (str_of username) token],
          (case verify (str_of username) token of
             Rejected _ \<Rightarrow> Respond (Response 500 (ErrorWithMessage ''Internal server error''))
           | Resolved data \<Rightarrow>
               (case get_prop data ''valid'' of
                  None \<Rightarrow> Respond (Response 500 (ErrorWithMessage ''Internal server error''))
                | Some v \<Rightarrow>
                    if truthy v then Next username
                    else Respond (Response 403 (Error ''Invalid or expired token'')))))))"

text \<open>The coercion both \<open>POST /cart\<close> and \<open>DELETE /cart/items\<close> apply to a body field:
  \<open>if (typeof v === 'string' && !isNaN(v)) v = parseInt(v, 10)\<close>.\<close>

fun coerce :: "jsval \<Rightarrow> jsval" where
  "coerce (JStr s) = (if \<not> isNaN s then parseInt s else JStr s)"
| "coerce v = v"

text \<open>\<open>POST /cart\<close>.  The catalog request and the push are inside one \<open>try\<close>, whose
  \<open>catch\<close> answers 404 for a 404 of the catalog and 500 for everything else, the
  TypeError of the push included.\<close>

definition mock_post_cart ::
  "(int \<Rightarrow> jsval axios) \<Rightarrow> (string \<rightharpoonup> nat) \<Rightarrow> string \<Rightarrow> jsval \<Rightarrow> jsval \<Rightarrow> mock_state
     \<Rightarrow> cart_line response \<times> mock_state" where
  "mock_post_cart catalog ap username itemId0 quantity0 st =
     (let itemId = coerce itemId0; quantity = coerce quantity0 in
      if \<not> truthy itemId \<or> \<not> truthy quantity
      then (Response 400 (Error ''Item ID and quantity are required''), st)
      else if \<not> Number_isInteger itemId \<or> num_le0 itemId
      then (Response 400 (Error ''Invalid item ID, must be a positive integer''), st)
      else if \<not> Number_isInteger quantity \<or> num_le0 quantity
      then (Response 400 (Error ''Invalid quantity, must be a positive integer''), st)
      else
        (case catalog (int_of itemId) of
           Rejected r \<Rightarrow>
             if r = Some 404 then (Response 404 (Error ''Item not found''), st)
             else (Response 500 (Error ''Internal server error while validating item''), st)
         | Resolved data \<Rightarrow>
             if \<not> truthy data then (Response 404 (Error ''Item not found''), st)
             else
               (let c = (case carts st of None \<Rightarrow> \<lparr>own = Map.empty, proto = None\<rparr> | Some c \<Rightarrow> c)
                in case add_line ap c username
                          \<lparr>itemId = int_of itemId, quantity = int_of quantity\<rparr> of
                     (None, c') \<Rightarrow>
                       (Response 500 (Error ''Internal server error while validating item''),
                        st\<lparr>carts := Some c'\<rparr>)
                   | (Some cart, c') \<Rightarrow>
                       (Response 200 (MessageCart ''Item added to cart'' cart),
                        st\<lparr>carts := Some c'\<rparr>))))"

text \<open>\<open>GET /cart/items\<close> reads \<open>global.carts[req.username]\<close> with no guard: while
  \<open>global.carts\<close> is \<open>undefined\<close> that is a TypeError, which Express hands to the error
  handler (500), as it does the TypeError of \<open>cart.map\<close>.  Each field goes through
  \<open>parseInt(v, 10)\<close>, that is through its string.\<close>

definition parsed_line :: "(int \<Rightarrow> string) \<Rightarrow> cart_line \<Rightarrow> jsval \<times> jsval" where
  "parsed_line sci item =
     (parseInt (Number_toString sci (itemId item)), parseInt (Number_toString sci (quantity item)))"

definition mock_get_cart_items ::
  "(int \<Rightarrow> string) \<Rightarrow> (string \<rightharpoonup> nat) \<Rightarrow> string \<Rightarrow> mock_state
     \<Rightarrow> cart_line response \<times> mock_state" where
  "mock_get_cart_items sci ap username st =
     (case carts st of
        None \<Rightarrow> (Response 500 (Error ''Internal server error''), st)
      | Some c \<Rightarrow>
          (case array_or_empty (lookup ap c username) of
             None \<Rightarrow> (Response 500 (Error ''Internal server error''), st)
           | Some cart \<Rightarrow> (Response 200 (CartItems (map (parsed_line sci) cart)), st)))"

text \<open>\<open>cart.findIndex(p)\<close>, with \<open>None\<close> for \<open>-1\<close>, and \<open>cart.splice(i, 1)\<close>.\<close>

fun findIndex :: "('a \<Rightarrow> bool) \<Rightarrow> 'a list \<Rightarrow> nat option" where
  "findIndex p [] = None"
| "findIndex p (x # xs) =
     (if p x then Some 0 else (case findIndex p xs of None \<Rightarrow> None | Some i \<Rightarrow> Some (Suc i)))"

definition splice1 :: "nat \<Rightarrow> 'a list \<Rightarrow> 'a list" where
  "splice1 i xs = take i xs @ drop (Suc i) xs"

text \<open>\<open>DELETE /cart/items\<close>.  The array is spliced in place and assigned back: an own
  array stays the own property, the prototype array stays the prototype.\<close>

definition mock_delete_cart_items ::
  "(string \<rightharpoonup> nat) \<Rightarrow> string \<Rightarrow> jsval \<Rightarrow> mock_state \<Rightarrow> cart_line response \<times> mock_state" where
  "mock_delete_cart_items ap username itemId0 st =
     (let itemId = coerce itemId0 in
      if \<not> Number_isInteger itemId \<or> num_le0 itemId
      then (Response 400 (Error ''Invalid item ID, must be a positive integer''), st)
      else
        (case carts st of
           None \<Rightarrow> (Response 500 (Error ''Internal server error''), st)
         | Some c \<Rightarrow>
             (case array_or_empty (lookup ap c username) of
                None \<Rightarrow> (Response 500 (Error ''Internal server error''), st)
              | Some cart \<Rightarrow>
                  (case findIndex (\<lambda>item. cart_line.itemId item = int_of itemId) cart of
                     None \<Rightarrow> (Response 400 (Error ''Item not found in the cart''), st)
                   | Some itemIndex \<Rightarrow>
                       (Response 200
                          (MessageDeleted ''Item deleted from the cart'' (cart ! itemIndex)),
                        st\<lparr>carts := Some (assign_array c username (splice1 itemIndex cart))\<rparr>)))))"

definition mock_post_checkout ::
  "(string \<rightharpoonup> nat) \<Rightarrow> string \<Rightarrow> mock_state \<Rightarrow> cart_line response \<times> mock_state" where
  "mock_post_checkout ap username st =
     (case carts st of
        None \<Rightarrow> (Response 400 (Error ''Cart is empty''), st)
      | Some c \<Rightarrow>
          if \<not> has_lines (lookup ap c username)
          then (Response 400 (Error ''Cart is empty''), st)
          else (Response 200 (Message ''Checkout successful. Ready for payment.''),
                st\<lparr>carts := Some (assign_array c username []),
                   checkoutCompleted := assign_flag (checkoutCompleted st) username True\<rparr>))"

definition mock_post_payment :: "string \<Rightarrow> mock_state \<Rightarrow> cart_line response \<times> mock_state" where
  "mock_post_payment username st =
     (if \<not> flag_set (checkoutCompleted st) username
      then (Response 400 (Error ''Checkout not completed''), st)
      else (Response 200 (Message ''Payment successful''),
            st\<lparr>checkoutCompleted := assign_flag (checkoutCompleted st) username False\<rparr>))"

definition mock_serve ::
  "(string \<Rightarrow> string option \<Rightarrow> jsval axios) \<Rightarrow> (int \<Rightarrow> jsval axios) \<Rightarrow> (int \<Rightarrow> string)
     \<Rightarrow> (string \<rightharpoonup> nat) \<Rightarrow> mock_route request \<Rightarrow> mock_state
     \<Rightarrow> upcall list \<times> cart_line response option \<times> mock_state" where
  "mock_serve verify catalog sci ap req st =
     (case mock_authMiddleware verify req of
        (calls, Respond r) \<Rightarrow> (calls, Some r, st)
      | (calls, Unhandled) \<Rightarrow> (calls, None, st)
      | (calls, Next u) \<Rightarrow>
          (let (r, st') =
                 (case route req of
                    PostCart \<Rightarrow>
                      mock_post_cart catalog ap (str_of u) (body_itemId req) (body_quantity req) st
                  | GetCartItems \<Rightarrow> mock_get_cart_items sci ap (str_of u) st
                  | DeleteCartItems \<Rightarrow>
                      mock_delete_cart_items ap (str_of u) (body_itemId req) st
                  | PostCheckout \<Rightarrow> mock_post_checkout ap (str_of u) st
                  | PostPayment \<Rightarrow> mock_post_payment (str_of u) st)
           in (calls, Some r, st')))"

section \<open>The management service\<close>

text \<open>Its one middleware runs before every route: the authorization header, then the
  role of the user asked of the adapter, then the token.  \<open>response.data.role\<close> is read
  outside the \<open>try\<close>, so a response without a body rejects the middleware's promise.\<close>

text \<open>The adapter's \<open>POST /user/role\<close>, as the management service sees it through
  \<open>axios\<close>: the role of the user's row, 404 when the \<open>users\<close> table has no row for the
  name (none has an undefined name, which reaches the query as \<open>NULL\<close>), 500 when the
  query fails.  The table is a map from user name to role; \<open>None\<close> is a database that
  fails.\<close>

definition adapter_user_role :: "(string \<rightharpoonup> string) option \<Rightarrow> string option \<Rightarrow> jsval axios" where
  "adapter_user_role db username =
     (case db of
        None \<Rightarrow> Rejected (Some 500)
      | Some users \<Rightarrow>
          (case username of
             None \<Rightarrow> Rejected (Some 404)
           | Some u \<Rightarrow>
               (case users u of
                  None \<Rightarrow> Rejected (Some 404)
                | Some role \<Rightarrow> Resolved (JObj [(''role'', JStr role)]))))"

definition admin_middleware ::
  "(string option \<Rightarrow> jsval axios) \<Rightarrow> (string \<Rightarrow> string) \<Rightarrow> env \<Rightarrow> 'r request
     \<Rightarrow> upcall list \<times> 'l outcome" where
  "admin_middleware role_store H e req =
     (let authHeader = authorization req; username = x_user req in
      if \<not> present authHeader
      then ([], Respond (Response 401 (Error ''Missing Authorization header'')))
      else
        ([UserRole username],
         (case role_store username of
            Rejected r \<Rightarrow>
              (let status = (case r of None \<Rightarrow> 500 | Some s \<Rightarrow> if s = 0 then 500 else s);
                   message = (if status = 404 then ''User not found''
                              else ''Error retrieving user role'')
               in Respond (Response status (Error message)))
          | Resolved data \<Rightarrow>
              (case get_prop data ''role'' of
                 None \<Rightarrow> Unhandled
               | Some role \<Rightarrow>
                   if role \<noteq> JStr ''admin''
                   then Respond (Response 403 (Error ''Forbidden: Admins only''))
                   else if providedToken authHeader \<noteq> Some (generateDynamicToken H e username)
                   then Respond (Response 403 (Error ''Forbidden: Invalid token''))
                   else Next username))))"

section \<open>Notions the properties are stated with\<close>

text \<open>\<open>t'\<close> is \<open>t\<close> with exactly one character replaced.\<close>

definition mutated :: "string \<Rightarrow> string \<Rightarrow> bool" where
  "mutated t t' \<longleftrightarrow>
     length t = length t' \<and> length (filter (\<lambda>(a, b). a \<noteq> b) (zip t t')) = 1"

text \<open>A user name under which \<open>global.checkoutCompleted\<close> inherits nothing; a plain user
  name, under which \<open>global.carts\<close> inherits nothing either, whatever its prototype; and
  an ordinary user of a state: a plain name whose own property, if there is one, is an
  array (as it is in every state the handlers reach from the start).\<close>

definition not_inherited :: "string \<Rightarrow> bool" where
  "not_inherited u \<longleftrightarrow> u \<noteq> ''__proto__'' \<and> map_of Object_prototype u = None"

definition plain :: "(string \<rightharpoonup> nat) \<Rightarrow> string \<Rightarrow> bool" where
  "plain ap u \<longleftrightarrow>
     not_inherited u \<and> ap u = None \<and> u \<noteq> ''length'' \<and> \<not> numeric_name u"

definition ordinary :: "(string \<rightharpoonup> nat) \<Rightarrow> 'l carts_obj option \<Rightarrow> string \<Rightarrow> bool" where
  "ordinary ap co u \<longleftrightarrow>
     plain ap u \<and>
     (case co of
        None \<Rightarrow> True
      | Some c \<Rightarrow> (case own c u of None \<Rightarrow> True | Some (Arr ls) \<Rightarrow> True | Some _ \<Rightarrow> False))"

text \<open>The lines of a user's cart: those of the array the handlers find under the name,
  none when they find no array.\<close>

definition cart_of :: "(string \<rightharpoonup> nat) \<Rightarrow> 'l carts_obj option \<Rightarrow> string \<Rightarrow> 'l list" where
  "cart_of ap co u =
     (case co of
        None \<Rightarrow> []
      | Some c \<Rightarrow> (case array_or_empty (lookup ap c u) of None \<Rightarrow> [] | Some ls \<Rightarrow> ls))"

text \<open>A body field after the coercion is a positive integer; a body field is not
  numeric: neither a number nor a string that \<open>Number\<close> reads as one.\<close>

definition positive_integer :: "jsval \<Rightarrow> bool" where
  "positive_integer v \<longleftrightarrow> Number_isInteger v \<and> \<not> num_le0 v"

definition non_numeric :: "jsval \<Rightarrow> bool" where
  "non_numeric v =
     (case v of JNum _ \<Rightarrow> False | JInfinity _ \<Rightarrow> False | JStr s \<Rightarrow> isNaN s | _ \<Rightarrow> True)"

text \<open>To compare the two storefronts on the routes both register: a request that has
  passed \<open>authMiddleware\<close>, the status each storefront answers it with, and a run of such
  requests.\<close>

datatype shop_req = Add string jsval jsval | Checkout string | Pay string

fun user_of :: "shop_req \<Rightarrow> string" where
  "user_of (Add u i q) = u"
| "user_of (Checkout u) = u"
| "user_of (Pay u) = u"

fun mock_step ::
  "(int \<Rightarrow> jsval axios) \<Rightarrow> (string \<rightharpoonup> nat) \<Rightarrow> shop_req \<Rightarrow> mock_state \<Rightarrow> nat \<times> mock_state" where
  "mock_step catalog ap (Add u i q) st =
     (status (fst (mock_post_cart catalog ap u i q st)), snd (mock_post_cart catalog ap u i q st))"
| "mock_step catalog ap (Checkout u) st =
     (status (fst (mock_post_checkout ap u st)), snd (mock_post_checkout ap u st))"
| "mock_step catalog ap (Pay u) st =
     (status (fst (mock_post_payment u st)), snd (mock_post_payment u st))"

fun basic_step :: "(string \<rightharpoonup> nat) \<Rightarrow> shop_req \<Rightarrow> basic_state \<Rightarrow> nat \<times> basic_state" where
  "basic_step ap (Add u i q) b =
     (status (fst (basic_post_cart ap u i q b)), snd (basic_post_cart ap u i q b))"
| "basic_step ap (Checkout u) b =
     (status (fst (basic_post_checkout ap u b)), snd (basic_post_checkout ap u b))"
| "basic_step ap (Pay u) b =
     (status (fst (basic_post_payment u b)), snd (basic_post_payment u b))"

fun mock_run ::
  "(int \<Rightarrow> jsval axios) \<Rightarrow> (string \<rightharpoonup> nat) \<Rightarrow> shop_req list \<Rightarrow> mock_state
     \<Rightarrow> nat list \<times> mock_state" where
  "mock_run catalog ap [] st = ([], st)"
| "mock_run catalog ap (r # rs) st =
     (fst (mock_step catalog ap r st)
        # fst (mock_run catalog ap rs (snd (mock_step catalog ap r st))),
      snd (mock_run catalog ap rs (snd (mock_step catalog ap r st))))"

fun basic_run ::
  "(string \<rightharpoonup> nat) \<Rightarrow> shop_req list \<Rightarrow> basic_state \<Rightarrow> nat list \<times> basic_state" where
  "basic_run ap [] b = ([], b)"
| "basic_run ap (r # rs) b =
     (fst (basic_step ap r b) # fst (basic_run ap rs (snd (basic_step ap r b))),
      snd (basic_run ap rs (snd (basic_step ap r b))))"

text \<open>The two storefronts hold the same carts when \<open>global.carts\<close> of the one is
  \<open>global.carts\<close> of the other, property by property and with the same prototype, a line
  of two integers being the line of those two numbers.\<close>

definition raw_of :: "cart_line \<Rightarrow> raw_line" where
  "raw_of l = \<lparr>raw_itemId = JNum (of_int (itemId l)), raw_quantity = JNum (of_int (quantity l))\<rparr>"

definition raw_carts :: "cart_line carts_obj \<Rightarrow> raw_line carts_obj" where
  "raw_carts c =
     \<lparr>own = (\<lambda>k. map_option (map_cval raw_of) (own c k)),
      proto = map_option (map raw_of) (proto c)\<rparr>"

definition same_carts :: "mock_state \<Rightarrow> basic_state \<Rightarrow> bool" where
  "same_carts st b \<longleftrightarrow> b = map_option raw_carts (carts st)"

text \<open>The requests on which the storefronts are compared, in a state of the storefront
  of the mock composition: an add that lacks a field, or whose fields are positive
  integers (numbers, not strings) of an item the catalog returns; every checkout; a
  payment that finds the user's checkout flag set.  A run of them, each taken in the
  state the run has reached.\<close>

fun agrees :: "(int \<Rightarrow> jsval axios) \<Rightarrow> mock_state \<Rightarrow> shop_req \<Rightarrow> bool" where
  "agrees catalog st (Add u i q) =
     (\<not> truthy i \<or> \<not> truthy q \<or>
      (positive_integer i \<and> positive_integer q
       \<and> (case catalog (int_of i) of Resolved d \<Rightarrow> truthy d | Rejected _ \<Rightarrow> False)))"
| "agrees catalog st (Checkout u) = True"
| "agrees catalog st (Pay u) = flag_set (checkoutCompleted st) u"

fun all_agree ::
  "(int \<Rightarrow> jsval axios) \<Rightarrow> (string \<rightharpoonup> nat) \<Rightarrow> shop_req list \<Rightarrow> mock_state \<Rightarrow> bool" where
  "all_agree catalog ap [] st = True"
| "all_agree catalog ap (r # rs) st =
     (agrees catalog st r \<and> all_agree catalog ap rs (snd (mock_step catalog ap r st)))"

text \<open>What belongs to user \<open>v\<close>, the lines of the cart and the checkout flag, is the same
  in \<open>st\<close> and \<open>st'\<close>.\<close>

definition untouched :: "(string \<rightharpoonup> nat) \<Rightarrow> mock_state \<Rightarrow> mock_state \<Rightarrow> string \<Rightarrow> bool" where
  "untouched ap st st' v \<longleftrightarrow>
     cart_of ap (carts st') v = cart_of ap (carts st) v
     \<and> checkoutCompleted st' v = checkoutCompleted st v"

section \<open>Properties\<close>

subsection \<open>Token verification\<close>

lemma split_on_nonempty: "split_on c s \<noteq> []"
  by (induction s) (auto split: list.splits)

lemma hd_split_on: "hd (split_on c s) = takeWhile (\<lambda>x. x \<noteq> c) s"
proof (induction s)
  case Nil
  then show ?case by simp
next
  case (Cons a s)
  then show ?case
    using split_on_nonempty [of c s] by (cases "split_on c s") auto
qed

lemma providedToken_Bearer:
  "providedToken (Some (''Bearer '' @ t)) = Some (takeWhile (\<lambda>x. x \<noteq> CHR '' '') t)"
proof -
  have "split_on (CHR '' '') (''Bearer '' @ t) = ''Bearer'' # split_on (CHR '' '') t"
    by simp
  moreover obtain y ys where "split_on (CHR '' '') t = y # ys"
    using split_on_nonempty [of "CHR '' ''" t] by (cases "split_on (CHR '' '') t") auto
  ultimately show ?thesis
    using hd_split_on [of "CHR '' ''" t]
    by (simp add: providedToken_def index_def str_of_def)
qed

lemma filter_zip_same: "filter (\<lambda>(a, b). a \<noteq> b) (zip t t) = []"
  by (induction t) auto

lemma mutated_neq: "mutated t t' \<Longrightarrow> t \<noteq> t'"
  by (auto simp: mutated_def filter_zip_same)

lemma takeWhile_full: "length (takeWhile p xs) = length xs \<Longrightarrow> takeWhile p xs = xs"
  by (metis takeWhile_eq_take take_all order_refl)

lemma mutated_not_provided:
  assumes "mutated tok t'"
  shows "providedToken (Some (''Bearer '' @ t')) \<noteq> Some tok"
proof
  assume "providedToken (Some (''Bearer '' @ t')) = Some tok"
  then have tw: "takeWhile (\<lambda>x. x \<noteq> CHR '' '') t' = tok"
    by (simp only: providedToken_Bearer option.inject)
  from assms have "length tok = length t'" by (simp add: mutated_def)
  with tw have "tok = t'" using takeWhile_full by metis
  with assms show False using mutated_neq by blast
qed

text \<open>
  C1.  In the storefront that derives the token, for a request that carries a user name
  \<open>u\<close> and an authorization header: the token of \<open>u\<close> is the digest of \<open>u\<close>, the current
  date and the secret; \<open>authMiddleware\<close> lets the request through as \<open>u\<close> exactly when the
  token presented (the second space-separated field of the header) equals that digest;
  every other request is answered 403 \<open>Invalid or expired token\<close>, a response and not an
  exception; in particular a bearer token that differs from the digest in one character
  is answered so.  The management service compares the token the same way once the role
  lookup has returned \<open>admin\<close>, and answers a token that is not the digest with 403
  \<open>Forbidden: Invalid token\<close>.
\<close>

theorem token_verification:
  fixes req :: "'r request"
  assumes "x_user req = Some u" and "u \<noteq> []" and "present (authorization req)"
  shows "generateDynamicToken H e (Some u) = H (u @ currentDate e @ secret e)
    \<and> ((basic_authMiddleware H e req :: 'l outcome) = Next (Some u)
         \<longleftrightarrow> providedToken (authorization req) = Some (H (u @ currentDate e @ secret e)))
    \<and> ((basic_authMiddleware H e req :: 'l outcome) \<noteq> Next (Some u)
         \<longrightarrow> (basic_authMiddleware H e req :: 'l outcome)
               = Respond (Response 403 (Error ''Invalid or expired token'')))
    \<and> (\<forall>t'. authorization req = Some (''Bearer '' @ t')
              \<and> mutated (H (u @ currentDate e @ secret e)) t'
         \<longrightarrow> (basic_authMiddleware H e req :: 'l outcome)
               = Respond (Response 403 (Error ''Invalid or expired token'')))
    \<and> (role_store (Some u) = Resolved data \<and> get_prop data ''role'' = Some (JStr ''admin'')
         \<longrightarrow> snd (admin_middleware role_store H e req :: upcall list \<times> 'l outcome)
               = (if providedToken (authorization req) = Some (H (u @ currentDate e @ secret e))
                  then Next (Some u)
                  else Respond (Response 403 (Error ''Forbidden: Invalid token''))))"
proof -
  have tok: "generateDynamicToken H e (Some u) = H (u @ currentDate e @ secret e)"
    by (simp add: generateDynamicToken_def str_of_def)
  have pu: "present (x_user req)" using assms by (simp add: present_def)
  have mw: "(basic_authMiddleware H e req :: 'l outcome) =
      (if providedToken (authorization req) \<noteq> Some (H (u @ currentDate e @ secret e))
       then Respond (Response 403 (Error ''Invalid or expired token''))
       else Next (Some u))"
    using assms pu tok by (simp add: basic_authMiddleware_def Let_def)
  have admin: "snd (admin_middleware role_store H e req :: upcall list \<times> 'l outcome)
               = (if providedToken (authorization req) = Some (H (u @ currentDate e @ secret e))
                  then Next (Some u)
                  else Respond (Response 403 (Error ''Forbidden: Invalid token'')))"
    if "role_store (Some u) = Resolved data" and "get_prop data ''role'' = Some (JStr ''admin'')"
    using that assms tok by (simp add: admin_middleware_def Let_def)
  have storefront: "(\<forall>t'. authorization req = Some (''Bearer '' @ t')
              \<and> mutated (H (u @ currentDate e @ secret e)) t'
         \<longrightarrow> (basic_authMiddleware H e req :: 'l outcome)
               = Respond (Response 403 (Error ''Invalid or expired token'')))"
    using mw mutated_not_provided by auto
  show ?thesis
    using tok mw storefront admin by simp
qed

theorem token_verification_witness:
  "(basic_authMiddleware rev \<lparr>TOKEN_SECRET = None, currentDate = ''2026-11-02''\<rparr>
      \<lparr>route = BPostCart, authorization = Some ''Bearer terces_tluafed20-11-6202ecila'',
       x_user = Some ''alice'', body_itemId = JUndefined, body_quantity = JUndefined\<rparr>
      :: raw_line outcome) = Next (Some ''alice'')
   \<and> (basic_authMiddleware rev \<lparr>TOKEN_SECRET = None, currentDate = ''2026-11-02''\<rparr>
      \<lparr>route = BPostCart, authorization = Some ''Bearer terces_tluafed20-11-6202ecilb'',
       x_user = Some ''alice'', body_itemId = JUndefined, body_quantity = JUndefined\<rparr>
      :: raw_line outcome) = Respond (Response 403 (Error ''Invalid or expired token''))"
proof -
  let ?e = "\<lparr>TOKEN_SECRET = None, currentDate = ''2026-11-02''\<rparr>"
  let ?r1 = "\<lparr>route = BPostCart, authorization = Some ''Bearer terces_tluafed20-11-6202ecila'',
       x_user = Some ''alice'', body_itemId = JUndefined, body_quantity = JUndefined\<rparr>"
  let ?r2 = "\<lparr>route = BPostCart, authorization = Some ''Bearer terces_tluafed20-11-6202ecilb'',
       x_user = Some ''alice'', body_itemId = JUndefined, body_quantity = JUndefined\<rparr>"
  let ?tok = "''terces_tluafed20-11-6202ecila''"
  have t: "rev (''alice'' @ currentDate ?e @ secret ?e) = ?tok"
    by (simp add: secret_def)
  have m: "mutated ?tok ''terces_tluafed20-11-6202ecilb''"
    by (simp add: mutated_def)
  have p: "providedToken (Some ''Bearer terces_tluafed20-11-6202ecila'') = Some ?tok"
    by (simp add: providedToken_def index_def str_of_def)
  have u1: "x_user ?r1 = Some ''alice''" and u2: "x_user ?r2 = Some ''alice''"
    by simp_all
  have ne: "''alice'' \<noteq> []" by simp
  have p1: "present (authorization ?r1)" and p2: "present (authorization ?r2)"
    by (simp_all add: present_def)
  note T1 = token_verification [OF u1 ne p1, where H = rev and e = ?e and 'l = raw_line
      and role_store = "\<lambda>u. Rejected None" and data = JNull]
  note T2 = token_verification [OF u2 ne p2, where H = rev and e = ?e and 'l = raw_line
      and role_store = "\<lambda>u. Rejected None" and data = JNull]
  from T1 have "(basic_authMiddleware rev ?e ?r1 :: raw_line outcome) = Next (Some ''alice'')
      \<longleftrightarrow> providedToken (authorization ?r1) = Some (rev (''alice'' @ currentDate ?e @ secret ?e))"
    by (rule conjunct1 [OF conjunct2])
  then have a: "(basic_authMiddleware rev ?e ?r1 :: raw_line outcome) = Next (Some ''alice'')"
    by (simp only: t) (simp add: p)
  from T2 have "\<forall>t'. authorization ?r2 = Some (''Bearer '' @ t')
              \<and> mutated (rev (''alice'' @ currentDate ?e @ secret ?e)) t'
         \<longrightarrow> (basic_authMiddleware rev ?e ?r2 :: raw_line outcome)
               = Respond (Response 403 (Error ''Invalid or expired token''))"
    by (rule conjunct1 [OF conjunct2 [OF conjunct2 [OF conjunct2]]])
  then have "authorization ?r2 = Some (''Bearer '' @ ''terces_tluafed20-11-6202ecilb'')
              \<and> mutated (rev (''alice'' @ currentDate ?e @ secret ?e)) ''terces_tluafed20-11-6202ecilb''
         \<longrightarrow> (basic_authMiddleware rev ?e ?r2 :: raw_line outcome)
               = Respond (Response 403 (Error ''Invalid or expired token''))"
    by (rule spec)
  moreover have "authorization ?r2 = Some (''Bearer '' @ ''terces_tluafed20-11-6202ecilb'')"
    by simp
  ultimately have b: "(basic_authMiddleware rev ?e ?r2 :: raw_line outcome)
               = Respond (Response 403 (Error ''Invalid or expired token''))"
    using m by (simp only: t) 
  show ?thesis using a b by (rule conjI)
qed

subsection \<open>Role before token\<close>

text \<open>
  C8.  In the management service, for a request that carries an authorization header
  and names a user whose role the adapter reports as something other than \<open>admin\<close>, the
  answer is 403 \<open>Forbidden: Admins only\<close> whatever the token: the role is tested first.
  The token decides only for an \<open>admin\<close>, where a wrong one gives 403
  \<open>Forbidden: Invalid token\<close>.
\<close>

theorem role_check_before_token:
  assumes "present (authorization req)"
    and "role_store (x_user req) = Resolved data" and "get_prop data ''role'' = Some role"
  shows "(role \<noteq> JStr ''admin'' \<longrightarrow>
            snd (admin_middleware role_store H e req :: upcall list \<times> 'l outcome)
              = Respond (Response 403 (Error ''Forbidden: Admins only'')))
     \<and> (role = JStr ''admin''
          \<and> providedToken (authorization req) \<noteq> Some (generateDynamicToken H e (x_user req)) \<longrightarrow>
            snd (admin_middleware role_store H e req :: upcall list \<times> 'l outcome)
              = Respond (Response 403 (Error ''Forbidden: Invalid token'')))
     \<and> (role = JStr ''admin''
          \<and> providedToken (authorization req) = Some (generateDynamicToken H e (x_user req)) \<longrightarrow>
            snd (admin_middleware role_store H e req :: upcall list \<times> 'l outcome)
              = Next (x_user req))"
  using assms by (simp add: admin_middleware_def Let_def)

theorem role_check_before_token_witness:
  "snd (admin_middleware
         (adapter_user_role (Some [''jdoe123'' \<mapsto> ''admin'', ''asmith456'' \<mapsto> ''user''])) rev
       \<lparr>TOKEN_SECRET = None, currentDate = ''2026-11-02''\<rparr>
       \<lparr>route = (), authorization = Some ''Bearer wrong'', x_user = Some ''asmith456'',
        body_itemId = JUndefined, body_quantity = JUndefined\<rparr>
       :: upcall list \<times> unit outcome)
     = Respond (Response 403 (Error ''Forbidden: Admins only''))"
proof -
  let ?req = "\<lparr>route = (), authorization = Some ''Bearer wrong'', x_user = Some ''asmith456'',
        body_itemId = JUndefined, body_quantity = JUndefined\<rparr>"
  let ?store = "adapter_user_role (Some [''jdoe123'' \<mapsto> ''admin'', ''asmith456'' \<mapsto> ''user''])"
  have p: "present (authorization ?req)" by (simp add: present_def)
  have s: "?store (x_user ?req) = Resolved (JObj [(''role'', JStr ''user'')])"
    by (simp add: adapter_user_role_def)
  have g: "get_prop (JObj [(''role'', JStr ''user'')]) ''role'' = Some (JStr ''user'')" by simp
  have n: "JStr ''user'' \<noteq> JStr ''admin''" by simp
  from role_check_before_token [where req = ?req and role_store = ?store and H = rev
      and e = "\<lparr>TOKEN_SECRET = None, currentDate = ''2026-11-02''\<rparr>" and 'l = unit, OF p s g] n
  show ?thesis by blast
qed

subsection \<open>The gateways' entry checks\<close>

text \<open>
  C7, as stated, fails on the management service: its middleware tests the authorization
  header only.  A request with that header and no \<open>X-User\<close> header is passed to the role
  lookup with an undefined user name, and the answer is the lookup's failure (404 from
  the adapter, whose table has no such user), not 401.
\<close>

theorem admin_missing_identity_reaches_role_store:
  "admin_middleware (adapter_user_role (Some [''jdoe123'' \<mapsto> ''admin''])) (\<lambda>s. s)
       \<lparr>TOKEN_SECRET = None, currentDate = ''2026-11-02''\<rparr>
       \<lparr>route = (), authorization = Some ''Bearer abc'', x_user = None,
        body_itemId = JUndefined, body_quantity = JUndefined\<rparr>
     = ([UserRole None], (Respond (Response 404 (Error ''User not found'')) :: unit outcome))"
  by (simp add: admin_middleware_def present_def adapter_user_role_def)

text \<open>
  C7, amended.  Both storefronts answer 401 to a request for one of their authenticated
  routes that lacks the authorization header or the \<open>X-User\<close> header, without a call to
  the adapter and without a change of the carts or flags.  The management service
  answers 401, without a call to the adapter, to a request that lacks the authorization
  header.  A request that has that header and no \<open>X-User\<close> header is passed to the role
  lookup with an undefined user name; with the repository's adapter as the role store,
  whatever its table of users, the answer is then the adapter's 404 \<open>User not found\<close>.
\<close>

theorem missing_credentials:
  "(route req \<in> {BPostCart, BPostCheckout, BPostPayment}
      \<and> (\<not> present (authorization req) \<or> \<not> present (x_user req)) \<longrightarrow>
      basic_serve H e ap req b
        = (Some (Response 401 (Error ''Missing Authorization or X-User header'')), b))
   \<and> (\<not> present (authorization req') \<or> \<not> present (x_user req') \<longrightarrow>
      mock_serve verify catalog sci ap req' st
        = ([], Some (Response 401 (Error ''Missing Authorization or X-User header'')), st))
   \<and> (\<not> present (authorization req'') \<longrightarrow>
      (admin_middleware role_store H e req'' :: upcall list \<times> 'l outcome)
        = ([], Respond (Response 401 (Error ''Missing Authorization header''))))
   \<and> (present (authorization req'') \<longrightarrow>
      fst (admin_middleware role_store H e req'' :: upcall list \<times> 'l outcome)
        = [UserRole (x_user req'')])
   \<and> (present (authorization req'') \<and> x_user req'' = None \<longrightarrow>
      (admin_middleware (adapter_user_role (Some users)) H e req'' :: upcall list \<times> 'l outcome)
        = ([UserRole None], Respond (Response 404 (Error ''User not found''))))"
proof -
  have basic: "basic_serve H e ap req b
        = (Some (Response 401 (Error ''Missing Authorization or X-User header'')), b)"
    if "route req \<in> {BPostCart, BPostCheckout, BPostPayment}"
      and "\<not> present (authorization req) \<or> \<not> present (x_user req)"
    using that by (auto simp: basic_serve_def basic_authMiddleware_def)
  have mock: "mock_serve verify catalog sci ap req' st
        = ([], Some (Response 401 (Error ''Missing Authorization or X-User header'')), st)"
    if "\<not> present (authorization req') \<or> \<not> present (x_user req')"
    using that by (auto simp: mock_serve_def mock_authMiddleware_def)
  have admin: "(admin_middleware role_store H e req'' :: upcall list \<times> 'l outcome)
        = ([], Respond (Response 401 (Error ''Missing Authorization header'')))"
    if "\<not> present (authorization req'')"
    using that by (simp add: admin_middleware_def)
  have lookup: "fst (admin_middleware role_store H e req'' :: upcall list \<times> 'l outcome)
        = [UserRole (x_user req'')]"
    if "present (authorization req'')"
    using that by (simp add: admin_middleware_def Let_def)
  have nameless: "(admin_middleware (adapter_user_role (Some users)) H e req''
          :: upcall list \<times> 'l outcome)
        = ([UserRole None], Respond (Response 404 (Error ''User not found'')))"
    if "present (authorization req'')" and "x_user req'' = None"
    using that by (simp add: admin_middleware_def Let_def adapter_user_role_def)
  show ?thesis using basic mock admin lookup nameless by blast
qed

theorem missing_credentials_witness:
  "mock_serve (\<lambda>u t. Resolved (JObj [(''valid'', JBool True)])) (\<lambda>n. Resolved (JObj []))
       (\<lambda>n. []) Map.empty \<lparr>route = PostPayment, authorization = Some ''Bearer abc'', x_user = None,
        body_itemId = JUndefined, body_quantity = JUndefined\<rparr>
       \<lparr>carts = None, checkoutCompleted = [''alice'' \<mapsto> True]\<rparr>
     = ([], Some (Response 401 (Error ''Missing Authorization or X-User header'')),
        \<lparr>carts = None, checkoutCompleted = [''alice'' \<mapsto> True]\<rparr>)
   \<and> (admin_middleware (adapter_user_role (Some [''jdoe123'' \<mapsto> ''admin''])) rev
        \<lparr>TOKEN_SECRET = None, currentDate = ''2026-11-02''\<rparr>
        \<lparr>route = PostPayment, authorization = Some ''Bearer abc'', x_user = None,
         body_itemId = JUndefined, body_quantity = JUndefined\<rparr> :: upcall list \<times> unit outcome)
     = ([UserRole None], Respond (Response 404 (Error ''User not found'')))"
proof -
  let ?req = "\<lparr>route = PostPayment, authorization = Some ''Bearer abc'', x_user = None,
        body_itemId = JUndefined, body_quantity = JUndefined\<rparr>"
  note T = missing_credentials [where req = "\<lparr>route = BPostPayment, authorization = None,
        x_user = None, body_itemId = JUndefined, body_quantity = JUndefined\<rparr>"
      and H = rev and e = "\<lparr>TOKEN_SECRET = None, currentDate = ''2026-11-02''\<rparr>"
      and ap = Map.empty and b = None and req' = ?req
      and verify = "\<lambda>u t. Resolved (JObj [(''valid'', JBool True)])"
      and catalog = "\<lambda>n. Resolved (JObj [])" and sci = "\<lambda>n. []"
      and st = "\<lparr>carts = None, checkoutCompleted = [''alice'' \<mapsto> True]\<rparr>"
      and req'' = ?req and role_store = "\<lambda>u. Rejected None"
      and users = "[''jdoe123'' \<mapsto> ''admin'']" and 'l = unit]
  have m: "\<not> present (authorization ?req) \<or> \<not> present (x_user ?req)"
    by (simp add: present_def)
  have a: "present (authorization ?req) \<and> x_user ?req = None"
    by (simp add: present_def)
  from T m have one: "mock_serve (\<lambda>u t. Resolved (JObj [(''valid'', JBool True)]))
       (\<lambda>n. Resolved (JObj [])) (\<lambda>n. []) Map.empty ?req
       \<lparr>carts = None, checkoutCompleted = [''alice'' \<mapsto> True]\<rparr>
     = ([], Some (Response 401 (Error ''Missing Authorization or X-User header'')),
        \<lparr>carts = None, checkoutCompleted = [''alice'' \<mapsto> True]\<rparr>)"
    by blast
  from T a have two: "(admin_middleware (adapter_user_role (Some [''jdoe123'' \<mapsto> ''admin''])) rev
        \<lparr>TOKEN_SECRET = None, currentDate = ''2026-11-02''\<rparr> ?req :: upcall list \<times> unit outcome)
     = ([UserRole None], Respond (Response 404 (Error ''User not found'')))"
    by blast
  show ?thesis using one two by (rule conjI)
qed

subsection \<open>Ordinary users\<close>

lemma plain_lookup:
  "plain ap u \<Longrightarrow> lookup ap c u = (case own c u of None \<Rightarrow> RUndefined | Some v \<Rightarrow> ref_of v)"
  by (auto simp: plain_def not_inherited_def lookup_def inherited_def array_index_def
      from_Object_prototype_def split: option.splits)

lemma ordinary_lookup:
  "ordinary ap (Some c) u \<Longrightarrow>
     lookup ap c u = (case own c u of None \<Rightarrow> RUndefined | Some v \<Rightarrow> ROwn (cart_of ap (Some c) u))"
  by (auto simp: ordinary_def cart_of_def plain_lookup split: option.splits cval.splits)

lemma ordinary_array:
  "ordinary ap (Some c) u \<Longrightarrow> array_or_empty (lookup ap c u) = Some (cart_of ap (Some c) u)"
  by (auto simp: ordinary_def cart_of_def plain_lookup split: option.splits cval.splits)

lemma ordinary_has_lines:
  "ordinary ap (Some c) u \<Longrightarrow> has_lines (lookup ap c u) \<longleftrightarrow> cart_of ap (Some c) u \<noteq> []"
  by (auto simp: ordinary_def cart_of_def plain_lookup split: option.splits cval.splits)

lemma plain_not_proto: "plain ap u \<Longrightarrow> u \<noteq> ''__proto__''"
  by (simp add: plain_def not_inherited_def)

lemma ordinary_plain: "ordinary ap co u \<Longrightarrow> plain ap u"
  by (simp add: ordinary_def)

lemma plain_assign_array:
  "plain ap u \<Longrightarrow> assign_array c u ls = c\<lparr>own := (own c)(u \<mapsto> Arr ls)\<rparr>"
  by (simp add: assign_array_def plain_not_proto)

lemma cart_of_own_update:
  "plain ap v \<Longrightarrow> cart_of ap (Some (c\<lparr>own := (own c)(u \<mapsto> Arr ls)\<rparr>)) v
     = (if v = u then ls else cart_of ap (Some c) v)"
  by (simp add: cart_of_def plain_lookup)

lemma ordinary_own_update:
  "plain ap v \<Longrightarrow> ordinary ap (Some (c\<lparr>own := (own c)(v \<mapsto> Arr ls)\<rparr>)) v"
  by (simp add: ordinary_def)

lemma ordinary_add_line:
  assumes "ordinary ap (Some c) u"
  shows "add_line ap c u line =
     (Some (cart_of ap (Some c) u @ [line]),
      c\<lparr>own := (own c)(u \<mapsto> Arr (cart_of ap (Some c) u @ [line]))\<rparr>)"
proof (cases "own c u")
  case None
  with assms show ?thesis
    by (simp add: add_line_def ordinary_lookup cart_of_def plain_lookup ordinary_plain)
next
  case (Some v)
  with assms show ?thesis by (simp add: add_line_def ordinary_lookup)
qed

lemma ordinary_fresh: "plain ap u \<Longrightarrow> ordinary ap (Some \<lparr>own = Map.empty, proto = None\<rparr>) u"
  by (simp add: ordinary_def)

lemma cart_of_fresh: "cart_of ap (Some \<lparr>own = Map.empty, proto = None\<rparr>) u = cart_of ap None u"
  if "plain ap u"
  using that by (simp add: cart_of_def plain_lookup)

subsection \<open>Checkout and payment\<close>

lemma mock_post_checkout_eq:
  assumes "ordinary ap (carts st) u"
  shows "mock_post_checkout ap u st =
     (if cart_of ap (carts st) u = [] then (Response 400 (Error ''Cart is empty''), st)
      else (Response 200 (Message ''Checkout successful. Ready for payment.''),
            st\<lparr>carts := Some ((the (carts st))\<lparr>own := (own (the (carts st)))(u \<mapsto> Arr [])\<rparr>),
               checkoutCompleted := (checkoutCompleted st)(u \<mapsto> True)\<rparr>))"
proof (cases "carts st")
  case None
  then show ?thesis by (simp add: mock_post_checkout_def cart_of_def)
next
  case (Some c)
  with assms have o: "ordinary ap (Some c) u" by simp
  then have p: "u \<noteq> ''__proto__''" using ordinary_plain plain_not_proto by blast
  from o Some show ?thesis
    by (simp add: mock_post_checkout_def ordinary_has_lines plain_assign_array [OF ordinary_plain [OF o]]
        assign_flag_def p)
qed

lemma basic_post_checkout_eq:
  assumes "ordinary ap b u"
  shows "basic_post_checkout ap u b =
     (if cart_of ap b u = [] then (Response 400 (Error ''Cart is empty''), b)
      else (Response 200 (Message ''Checkout successful. Payment processed.''),
            Some ((the b)\<lparr>own := (own (the b))(u \<mapsto> Arr [])\<rparr>)))"
proof (cases b)
  case None
  then show ?thesis by (simp add: basic_post_checkout_def cart_of_def)
next
  case (Some c)
  with assms have o: "ordinary ap (Some c) u" by simp
  from o Some show ?thesis
    by (simp add: basic_post_checkout_def ordinary_has_lines
        plain_assign_array [OF ordinary_plain [OF o]])
qed


lemma cart_of_None: "cart_of ap None u = []"
  by (simp add: cart_of_def)

lemma ordinary_get_cart_items:
  "ordinary ap (carts st) u \<Longrightarrow> carts st \<noteq> None \<Longrightarrow>
     mock_get_cart_items sci ap u st
       = (Response 200 (CartItems (map (parsed_line sci) (cart_of ap (carts st) u))), st)"
  by (auto simp: mock_get_cart_items_def ordinary_array)

text \<open>
  C2, as stated, fails for identities that are names \<open>global.carts\<close> inherits, and for
  the listing of the storefront that derives the token.  In the storefront of the mock
  composition, once a first line has been added by anyone (here by \<open>alice\<close>), checkout as
  \<open>constructor\<close>, who has added nothing and whose listing is a 500, answers 200 and sets
  that user's checkout flag: the gate reads the inherited function \<open>Object\<close>, whose
  \<open>length\<close> is 1.  In the storefront that derives the token the request to list the
  lines, after an add and a checkout, matches no route and is answered 404.
\<close>

theorem checkout_without_lines:
  "(let s0 = \<lparr>carts = None, checkoutCompleted = Map.empty\<rparr>;
        (r1, s1) = mock_post_cart (\<lambda>i. Resolved (JObj [])) Map.empty ''alice'' (JNum 1) (JNum 2) s0;
        (r2, s2) = mock_get_cart_items (\<lambda>_. []) Map.empty ''constructor'' s1;
        (r3, s3) = mock_post_checkout Map.empty ''constructor'' s2
    in (map status [r1, r2, r3], checkoutCompleted s3 ''constructor''))
     = ([200, 500, 200], Some True)
   \<and> (let e = \<lparr>TOKEN_SECRET = None, currentDate = ''2026-11-02''\<rparr>;
           req = (\<lambda>r. \<lparr>route = r, authorization = Some ''Bearer terces_tluafed20-11-6202ecila'',
                       x_user = Some ''alice'', body_itemId = JNum 1, body_quantity = JNum 2\<rparr>);
           (r1, b1) = basic_serve rev e Map.empty (req BPostCart) None;
           (r2, b2) = basic_serve rev e Map.empty (req BPostCheckout) b1;
           (r3, b3) = basic_serve rev e Map.empty (req BGetCartItems) b2
       in map (map_option status) [r1, r2, r3]) = [Some 200, Some 200, Some 404]"
proof -
  have t: "providedToken (Some ''Bearer terces_tluafed20-11-6202ecila'')
      = Some ''terces_tluafed20-11-6202ecila''"
    by (simp add: providedToken_def str_of_def index_def)
  have m: "(let s0 = \<lparr>carts = None, checkoutCompleted = Map.empty\<rparr>;
        (r1, s1) = mock_post_cart (\<lambda>i. Resolved (JObj [])) Map.empty ''alice'' (JNum 1) (JNum 2) s0;
        (r2, s2) = mock_get_cart_items (\<lambda>_. []) Map.empty ''constructor'' s1;
        (r3, s3) = mock_post_checkout Map.empty ''constructor'' s2
    in (map status [r1, r2, r3], checkoutCompleted s3 ''constructor''))
     = ([200, 500, 200], Some True)"
    by (simp add: mock_post_cart_def mock_get_cart_items_def mock_post_checkout_def
        add_line_def lookup_def inherited_def from_Object_prototype_def Object_prototype_def
        assign_array_def assign_flag_def Let_def)
  have b: "(let e = \<lparr>TOKEN_SECRET = None, currentDate = ''2026-11-02''\<rparr>;
           req = (\<lambda>r. \<lparr>route = r, authorization = Some ''Bearer terces_tluafed20-11-6202ecila'',
                       x_user = Some ''alice'', body_itemId = JNum 1, body_quantity = JNum 2\<rparr>);
           (r1, b1) = basic_serve rev e Map.empty (req BPostCart) None;
           (r2, b2) = basic_serve rev e Map.empty (req BPostCheckout) b1;
           (r3, b3) = basic_serve rev e Map.empty (req BGetCartItems) b2
       in map (map_option status) [r1, r2, r3]) = [Some 200, Some 200, Some 404]"
    by (simp add: basic_serve_def basic_authMiddleware_def present_def t generateDynamicToken_def
        secret_def str_of_def basic_post_cart_def basic_post_checkout_def
        add_line_def lookup_def inherited_def from_Object_prototype_def Object_prototype_def
        assign_array_def Let_def)
  show ?thesis using m b by (rule conjI)
qed

text \<open>
  C2, amended.  For an ordinary user of the state (a name under which \<open>global.carts\<close>
  inherits nothing and has no property other than an array), in the storefront of the
  mock composition: checkout of a cart with no lines (no lines, no property, or no
  \<open>global.carts\<close> yet) answers 400 \<open>Cart is empty\<close> and changes nothing; checkout of a cart
  with lines answers 200, leaves that cart empty and sets the user's checkout flag, and
  the listing that follows returns no lines.  The storefront that derives the token has
  the same gate and empties the cart the same way; its state is the carts alone, with
  no flag, and a request to list matches no route there (404, nothing changed).
\<close>

theorem checkout_gate:
  "(ordinary ap (carts st) u \<and> cart_of ap (carts st) u = [] \<longrightarrow>
      mock_post_checkout ap u st = (Response 400 (Error ''Cart is empty''), st))
   \<and> (ordinary ap (carts st) u \<and> cart_of ap (carts st) u \<noteq> [] \<longrightarrow>
      (\<exists>st'. mock_post_checkout ap u st =
                (Response 200 (Message ''Checkout successful. Ready for payment.''), st')
          \<and> ordinary ap (carts st') u
          \<and> cart_of ap (carts st') u = []
          \<and> checkoutCompleted st' u = Some True
          \<and> flag_set (checkoutCompleted st') u
          \<and> mock_get_cart_items sci ap u st' = (Response 200 (CartItems []), st')))
   \<and> (ordinary ap b u \<and> cart_of ap b u = [] \<longrightarrow>
      basic_post_checkout ap u b = (Response 400 (Error ''Cart is empty''), b))
   \<and> (ordinary ap b u \<and> cart_of ap b u \<noteq> [] \<longrightarrow>
      (\<exists>b'. basic_post_checkout ap u b =
                (Response 200 (Message ''Checkout successful. Payment processed.''), b')
          \<and> ordinary ap b' u
          \<and> cart_of ap b' u = []))
   \<and> (route req = BGetCartItems \<longrightarrow>
        basic_serve H e ap req b = (Some (Response 404 NoRoute), b))"
proof -
  have m: "\<exists>st'. mock_post_checkout ap u st =
                (Response 200 (Message ''Checkout successful. Ready for payment.''), st')
          \<and> ordinary ap (carts st') u
          \<and> cart_of ap (carts st') u = []
          \<and> checkoutCompleted st' u = Some True
          \<and> flag_set (checkoutCompleted st') u
          \<and> mock_get_cart_items sci ap u st' = (Response 200 (CartItems []), st')"
    if o: "ordinary ap (carts st) u" and ne: "cart_of ap (carts st) u \<noteq> []"
  proof -
    let ?st' = "st\<lparr>carts := Some ((the (carts st))\<lparr>own := (own (the (carts st)))(u \<mapsto> Arr [])\<rparr>),
               checkoutCompleted := (checkoutCompleted st)(u \<mapsto> True)\<rparr>"
    have p: "plain ap u" using o by (rule ordinary_plain)
    have 1: "mock_post_checkout ap u st =
        (Response 200 (Message ''Checkout successful. Ready for payment.''), ?st')"
      using ne by (simp add: mock_post_checkout_eq [OF o])
    have 2: "ordinary ap (carts ?st') u" using p by (simp add: ordinary_own_update)
    have 3: "cart_of ap (carts ?st') u = []" using p by (simp add: cart_of_own_update)
    have 4: "checkoutCompleted ?st' u = Some True" by simp
    have 5: "flag_set (checkoutCompleted ?st') u" by (simp add: flag_set_def)
    have 6: "mock_get_cart_items sci ap u ?st' = (Response 200 (CartItems []), ?st')"
      using ordinary_get_cart_items [OF 2, of sci] 3 by simp
    from 1 2 3 4 5 6 show ?thesis by blast
  qed
  have b: "\<exists>b'. basic_post_checkout ap u b =
                (Response 200 (Message ''Checkout successful. Payment processed.''), b')
          \<and> ordinary ap b' u
          \<and> cart_of ap b' u = []"
    if o: "ordinary ap b u" and ne: "cart_of ap b u \<noteq> []"
  proof -
    have p: "plain ap u" using o by (rule ordinary_plain)
    show ?thesis using ne p
      by (simp add: basic_post_checkout_eq [OF o] ordinary_own_update cart_of_own_update)
  qed
  show ?thesis using m b
    by (simp add: mock_post_checkout_eq basic_post_checkout_eq basic_serve_def)
qed

theorem checkout_gate_witness:
  "mock_post_checkout Map.empty ''alice'' \<lparr>carts = None, checkoutCompleted = Map.empty\<rparr>
     = (Response 400 (Error ''Cart is empty''), \<lparr>carts = None, checkoutCompleted = Map.empty\<rparr>)
   \<and> fst (mock_post_checkout Map.empty ''alice''
        \<lparr>carts = Some \<lparr>own = [''alice'' \<mapsto> Arr [\<lparr>itemId = 1, quantity = 2\<rparr>]], proto = None\<rparr>,
         checkoutCompleted = Map.empty\<rparr>)
     = Response 200 (Message ''Checkout successful. Ready for payment.'')"
proof -
  let ?s0 = "\<lparr>carts = None, checkoutCompleted = Map.empty\<rparr>"
  let ?s1 = "\<lparr>carts = Some \<lparr>own = [''alice'' \<mapsto> Arr [\<lparr>itemId = 1, quantity = 2\<rparr>]], proto = None\<rparr>,
              checkoutCompleted = Map.empty\<rparr>"
  note A = checkout_gate [where st = ?s0 and u = "''alice''" and ap = Map.empty
      and sci = "\<lambda>_. []" and b = None and req = "\<lparr>route = BGetCartItems, authorization = None, x_user = None,
         body_itemId = JUndefined, body_quantity = JUndefined\<rparr>"]
  note B = checkout_gate [where st = ?s1 and u = "''alice''" and ap = Map.empty
      and sci = "\<lambda>_. []" and b = None and req = "\<lparr>route = BGetCartItems, authorization = None, x_user = None,
         body_itemId = JUndefined, body_quantity = JUndefined\<rparr>"]
  have pl: "plain Map.empty ''alice''"
    by (simp add: plain_def not_inherited_def Object_prototype_def numeric_name_def is_digit_def)
  have o0: "ordinary Map.empty (carts ?s0) ''alice''" using pl by (simp add: ordinary_def)
  have o1: "ordinary Map.empty (carts ?s1) ''alice''" using pl by (simp add: ordinary_def)
  have e0: "cart_of Map.empty (carts ?s0) ''alice'' = []" by (simp add: cart_of_def)
  have e1: "cart_of Map.empty (carts ?s1) ''alice'' \<noteq> []"
    by (simp add: cart_of_def lookup_def)
  from A o0 e0 have a: "mock_post_checkout Map.empty ''alice'' ?s0
      = (Response 400 (Error ''Cart is empty''), ?s0)"
    by blast
  from B o1 e1 have "\<exists>st'. mock_post_checkout Map.empty ''alice'' ?s1 =
                (Response 200 (Message ''Checkout successful. Ready for payment.''), st')
          \<and> ordinary Map.empty (carts st') ''alice''
          \<and> cart_of Map.empty (carts st') ''alice'' = []
          \<and> checkoutCompleted st' ''alice'' = Some True
          \<and> flag_set (checkoutCompleted st') ''alice''
          \<and> mock_get_cart_items (\<lambda>_. []) Map.empty ''alice'' st' = (Response 200 (CartItems []), st')"
    by blast
  then have b: "fst (mock_post_checkout Map.empty ''alice'' ?s1)
       = Response 200 (Message ''Checkout successful. Ready for payment.'')"
    by auto
  show ?thesis using a b by (rule conjI)
qed

text \<open>
  C3, as stated, fails on the storefront that derives the token: its \<open>POST /payment\<close>
  has no precondition, so payment succeeds before any checkout, and a second payment
  right after the first succeeds again.
\<close>

theorem second_payment_succeeds_without_flag:
  "fst (basic_post_payment ''alice'' None)
     = Response 200 (Message ''Payment processed successfully (simulated).'')
   \<and> (let (r1, b1) = basic_post_cart Map.empty ''alice'' (JNum 1) (JNum 2) None;
           (r2, b2) = basic_post_checkout Map.empty ''alice'' b1;
           (r3, b3) = basic_post_payment ''alice'' b2;
           (r4, b4) = basic_post_payment ''alice'' b3
       in map status [r1, r2, r3, r4]) = [200, 200, 200, 200]"
  by (simp add: basic_post_payment_def basic_post_cart_def basic_post_checkout_def Let_def
      add_line_def lookup_def inherited_def from_Object_prototype_def Object_prototype_def
      assign_array_def)

text \<open>
  C3, amended.  In the storefront of the mock composition, for a user name under which
  \<open>global.checkoutCompleted\<close> inherits nothing (any name but \<open>__proto__\<close> and the members
  of \<open>Object.prototype\<close>), payment answers 400 \<open>Checkout not completed\<close>, changing
  nothing, exactly when the user's checkout flag is not set; when it is set, payment
  answers 200 and clears the flag.  Hence, for an ordinary user of the state, checkout
  of a cart with lines, then payment, then payment again answer 200, 200, 400.  The
  storefront that derives the token keeps no flag: its payment always answers 200 and
  changes nothing.
\<close>

theorem payment_gate:
  "(not_inherited u \<longrightarrow>
      (mock_post_payment u st = (Response 400 (Error ''Checkout not completed''), st)
         \<longleftrightarrow> checkoutCompleted st u \<noteq> Some True)
      \<and> (status (fst (mock_post_payment u st)) = 400 \<longleftrightarrow> checkoutCompleted st u \<noteq> Some True)
      \<and> (checkoutCompleted st u = Some True \<longrightarrow>
           mock_post_payment u st =
             (Response 200 (Message ''Payment successful''),
              st\<lparr>checkoutCompleted := (checkoutCompleted st)(u \<mapsto> False)\<rparr>)))
   \<and> (ordinary ap (carts st) u \<and> cart_of ap (carts st) u \<noteq> [] \<longrightarrow>
        (let (r1, s1) = mock_post_checkout ap u st;
             (r2, s2) = mock_post_payment u s1;
             (r3, s3) = mock_post_payment u s2
         in [r1, r2, r3]) =
          [Response 200 (Message ''Checkout successful. Ready for payment.''),
           Response 200 (Message ''Payment successful''),
           Response 400 (Error ''Checkout not completed'')])
   \<and> basic_post_payment u b
        = (Response 200 (Message ''Payment processed successfully (simulated).''), b)"
proof -
  have f: "flag_set (checkoutCompleted st) u \<longleftrightarrow> checkoutCompleted st u = Some True"
    if "not_inherited u"
    using that by (auto simp: flag_set_def not_inherited_def split: option.splits)
  have a: "assign_flag g u x = g(u \<mapsto> x)" if "u \<noteq> ''__proto__''" for g x
    using that by (simp add: assign_flag_def)
  have 1: "(mock_post_payment u st = (Response 400 (Error ''Checkout not completed''), st)
         \<longleftrightarrow> checkoutCompleted st u \<noteq> Some True)
      \<and> (status (fst (mock_post_payment u st)) = 400 \<longleftrightarrow> checkoutCompleted st u \<noteq> Some True)
      \<and> (checkoutCompleted st u = Some True \<longrightarrow>
           mock_post_payment u st =
             (Response 200 (Message ''Payment successful''),
              st\<lparr>checkoutCompleted := (checkoutCompleted st)(u \<mapsto> False)\<rparr>))"
    if n: "not_inherited u"
  proof -
    have "u \<noteq> ''__proto__''" using n by (simp add: not_inherited_def)
    then show ?thesis by (simp add: mock_post_payment_def f [OF n] a)
  qed
  have 2: "(let (r1, s1) = mock_post_checkout ap u st;
             (r2, s2) = mock_post_payment u s1;
             (r3, s3) = mock_post_payment u s2
         in [r1, r2, r3]) =
          [Response 200 (Message ''Checkout successful. Ready for payment.''),
           Response 200 (Message ''Payment successful''),
           Response 400 (Error ''Checkout not completed'')]"
    if o: "ordinary ap (carts st) u" and ne: "cart_of ap (carts st) u \<noteq> []"
  proof -
    have "u \<noteq> ''__proto__''" using o ordinary_plain plain_not_proto by blast
    then show ?thesis using ne
      by (simp add: mock_post_checkout_eq [OF o] mock_post_payment_def flag_set_def a)
  qed
  have 3: "basic_post_payment u b
        = (Response 200 (Message ''Payment processed successfully (simulated).''), b)"
    by (simp add: basic_post_payment_def)
  from 1 2 3 show ?thesis by blast
qed

theorem payment_gate_witness:
  "(let (r1, s1) = mock_post_checkout Map.empty ''alice''
        \<lparr>carts = Some \<lparr>own = [''alice'' \<mapsto> Arr [\<lparr>itemId = 1, quantity = 2\<rparr>]], proto = None\<rparr>,
         checkoutCompleted = Map.empty\<rparr>;
        (r2, s2) = mock_post_payment ''alice'' s1;
        (r3, s3) = mock_post_payment ''alice'' s2
    in [r1, r2, r3]) =
          [Response 200 (Message ''Checkout successful. Ready for payment.''),
           Response 200 (Message ''Payment successful''),
           Response 400 (Error ''Checkout not completed'')]
   \<and> mock_post_payment ''alice'' \<lparr>carts = None, checkoutCompleted = Map.empty\<rparr>
       = (Response 400 (Error ''Checkout not completed''),
          \<lparr>carts = None, checkoutCompleted = Map.empty\<rparr>)"
proof -
  let ?s0 = "\<lparr>carts = None, checkoutCompleted = Map.empty\<rparr> :: mock_state"
  let ?s1 = "\<lparr>carts = Some \<lparr>own = [''alice'' \<mapsto> Arr [\<lparr>itemId = 1, quantity = 2\<rparr>]], proto = None\<rparr>,
              checkoutCompleted = Map.empty\<rparr>"
  have pl: "plain Map.empty ''alice''"
    by (simp add: plain_def not_inherited_def Object_prototype_def numeric_name_def is_digit_def)
  have ni: "not_inherited ''alice''" using pl by (simp add: plain_def)
  have o1: "ordinary Map.empty (carts ?s1) ''alice''" using pl by (simp add: ordinary_def)
  have e1: "cart_of Map.empty (carts ?s1) ''alice'' \<noteq> []"
    by (simp add: cart_of_def lookup_def)
  have f0: "checkoutCompleted ?s0 ''alice'' \<noteq> Some True" by simp
  from payment_gate [where u = "''alice''" and st = ?s1 and ap = Map.empty and b = None] o1 e1
  have a: "(let (r1, s1) = mock_post_checkout Map.empty ''alice'' ?s1;
             (r2, s2) = mock_post_payment ''alice'' s1;
             (r3, s3) = mock_post_payment ''alice'' s2
         in [r1, r2, r3]) =
          [Response 200 (Message ''Checkout successful. Ready for payment.''),
           Response 200 (Message ''Payment successful''),
           Response 400 (Error ''Checkout not completed'')]"
    by blast
  from payment_gate [where u = "''alice''" and st = ?s0 and ap = Map.empty and b = None] ni f0
  have b: "mock_post_payment ''alice'' ?s0 = (Response 400 (Error ''Checkout not completed''), ?s0)"
    by blast
  show ?thesis using a b by (rule conjI)
qed

subsection \<open>Numbers and their strings\<close>

lemma digit_cases: "n < 10 \<Longrightarrow> n \<in> {0, 1, 2, 3, 4, 5, 6, 7, 8, 9 :: nat}"
  by (simp only: insert_iff empty_iff) arith

lemma digit_char_facts:
  assumes "n < 10"
  shows "is_digit (digit_char n)" and "digit_val (digit_char n) = n"
  using digit_cases [OF assms] by (auto simp: is_digit_def digit_val_def digit_char_def)

lemma dec_digits_all: "list_all is_digit (dec_digits n)"
proof (induction n rule: dec_digits.induct)
  case (1 n)
  show ?case
  proof (cases "n < 10")
    case True
    then show ?thesis by (subst dec_digits.simps) (simp add: digit_char_facts)
  next
    case False
    with 1 show ?thesis by (subst dec_digits.simps) (simp add: digit_char_facts)
  qed
qed

lemma dec_digits_nonempty: "dec_digits n \<noteq> []"
  by (subst dec_digits.simps) simp

lemma digits_val_snoc: "digits_val (ds @ [c]) = 10 * digits_val ds + digit_val c"
  by (simp add: digits_val_def)

lemma digits_val_dec_digits: "digits_val (dec_digits n) = n"
proof (induction n rule: dec_digits.induct)
  case (1 n)
  show ?case
  proof (cases "n < 10")
    case True
    then show ?thesis
      by (subst dec_digits.simps) (simp add: digit_char_facts digits_val_def)
  next
    case False
    with 1 have "digits_val (dec_digits (n div 10)) = n div 10" by simp
    with False show ?thesis
      by (subst dec_digits.simps) (simp add: digits_val_snoc digit_char_facts)
  qed
qed

text \<open>On a run of digits \<open>parseInt\<close> gives the double nearest to their value; on the
  digits of a number that is a double, that number.\<close>

lemma parseInt_digits:
  assumes "ds \<noteq> []" and "list_all is_digit ds"
  shows "parseInt ds = (case to_double (digits_val ds) of
                          None \<Rightarrow> JInfinity False
                        | Some v \<Rightarrow> JNum (of_int (int v)))"
proof -
  obtain c cs where ds: "ds = c # cs" using assms(1) by (cases ds) auto
  with assms(2) have c: "is_digit c" by simp
  then have nws: "\<not> is_ws c" and nsign: "c \<noteq> CHR ''-''" "c \<noteq> CHR ''+''"
    by (auto simp: is_digit_def is_ws_def)
  have tw: "takeWhile is_digit ds = ds"
    using assms(2) by (simp add: list_all_iff)
  have dw: "dropWhile is_ws ds = ds" using ds nws by simp
  show ?thesis
    unfolding parseInt_def dw Let_def using ds nsign tw by (simp split: option.splits)
qed

lemma to_double_small: "n \<le> 2 ^ 53 \<Longrightarrow> to_double n = Some n"
  by (simp add: to_double_def)

lemma parseInt_dec_digits:
  "to_double n = Some n \<Longrightarrow> parseInt (dec_digits n) = JNum (of_int (int n))"
  by (simp add: parseInt_digits dec_digits_nonempty dec_digits_all digits_val_dec_digits)

lemma parseInt_Number_toString:
  "0 \<le> n \<Longrightarrow> n < 10 ^ 21 \<Longrightarrow> to_double (nat n) = Some (nat n)
     \<Longrightarrow> parseInt (Number_toString sci n) = JNum (of_int n)"
  by (simp add: Number_toString_def parseInt_dec_digits)

lemma parsed_line_small:
  "0 \<le> itemId l \<Longrightarrow> itemId l < 10 ^ 21 \<Longrightarrow> to_double (nat (itemId l)) = Some (nat (itemId l))
     \<Longrightarrow> 0 \<le> quantity l \<Longrightarrow> quantity l < 10 ^ 21
     \<Longrightarrow> to_double (nat (quantity l)) = Some (nat (quantity l))
     \<Longrightarrow> parsed_line sci l = (JNum (of_int (itemId l)), JNum (of_int (quantity l)))"
  by (simp add: parsed_line_def parseInt_Number_toString)

subsection \<open>Adding and listing\<close>

lemma Number_isInteger_of_int [simp]: "Number_isInteger (JNum (of_int n))"
  by simp

lemma ordinary_state_add_line:
  assumes "ordinary ap co u"
  shows "add_line ap (case co of None \<Rightarrow> \<lparr>own = Map.empty, proto = None\<rparr> | Some c \<Rightarrow> c) u line =
     (Some (cart_of ap co u @ [line]),
      (case co of None \<Rightarrow> \<lparr>own = Map.empty, proto = None\<rparr> | Some c \<Rightarrow> c)
        \<lparr>own := (own (case co of None \<Rightarrow> \<lparr>own = Map.empty, proto = None\<rparr> | Some c \<Rightarrow> c))
                  (u \<mapsto> Arr (cart_of ap co u @ [line]))\<rparr>)"
proof (cases co)
  case None
  have p: "plain ap u" using assms by (rule ordinary_plain)
  show ?thesis using None
    by (simp add: ordinary_add_line [OF ordinary_fresh [OF p]] cart_of_fresh [OF p] cart_of_None)
next
  case (Some c)
  with assms show ?thesis by (simp add: ordinary_add_line)
qed

lemma mock_post_cart_accept:
  assumes "ordinary ap (carts st) u"
    and "coerce i = JNum (of_int n)" and "0 < n" and "coerce q = JNum (of_int k)" and "0 < k"
    and "catalog n = Resolved d" and "truthy d"
  shows "mock_post_cart catalog ap u i q st =
     (Response 200 (MessageCart ''Item added to cart''
                      (cart_of ap (carts st) u @ [\<lparr>itemId = n, quantity = k\<rparr>])),
      st\<lparr>carts := Some
           ((case carts st of None \<Rightarrow> \<lparr>own = Map.empty, proto = None\<rparr> | Some c \<Rightarrow> c)
              \<lparr>own := (own (case carts st of None \<Rightarrow> \<lparr>own = Map.empty, proto = None\<rparr> | Some c \<Rightarrow> c))
                        (u \<mapsto> Arr (cart_of ap (carts st) u @ [\<lparr>itemId = n, quantity = k\<rparr>]))\<rparr>)\<rparr>)"
  using assms(2-7)
  by (simp add: mock_post_cart_def Let_def ordinary_state_add_line [OF assms(1)])

lemma add_then_list:
  assumes "ordinary ap (carts st) u"
    and "coerce i = JNum (of_int n)" and "0 < n" and "coerce q = JNum (of_int k)" and "0 < k"
    and "catalog n = Resolved d" and "truthy d"
    and "mock_post_cart catalog ap u i q st = (r, st')"
  shows "cart_of ap (carts st') u = cart_of ap (carts st) u @ [\<lparr>itemId = n, quantity = k\<rparr>]"
    and "ordinary ap (carts st') u"
    and "mock_get_cart_items sci ap u st' =
           (Response 200 (CartItems (map (parsed_line sci) (cart_of ap (carts st) u)
                                       @ [parsed_line sci \<lparr>itemId = n, quantity = k\<rparr>])), st')"
    and "n < 10 ^ 21 \<Longrightarrow> to_double (nat n) = Some (nat n) \<Longrightarrow>
         k < 10 ^ 21 \<Longrightarrow> to_double (nat k) = Some (nat k) \<Longrightarrow>
           parsed_line sci \<lparr>itemId = n, quantity = k\<rparr> = (JNum (of_int n), JNum (of_int k))"
proof -
  have p: "plain ap u" using assms(1) by (rule ordinary_plain)
  from assms have st': "st' = st\<lparr>carts := Some
           ((case carts st of None \<Rightarrow> \<lparr>own = Map.empty, proto = None\<rparr> | Some c \<Rightarrow> c)
              \<lparr>own := (own (case carts st of None \<Rightarrow> \<lparr>own = Map.empty, proto = None\<rparr> | Some c \<Rightarrow> c))
                        (u \<mapsto> Arr (cart_of ap (carts st) u @ [\<lparr>itemId = n, quantity = k\<rparr>]))\<rparr>)\<rparr>"
    by (simp add: mock_post_cart_accept)
  show c: "cart_of ap (carts st') u = cart_of ap (carts st) u @ [\<lparr>itemId = n, quantity = k\<rparr>]"
    using p by (simp add: st' cart_of_own_update)
  show o: "ordinary ap (carts st') u"
    using p by (simp add: st' ordinary_own_update)
  have "carts st' \<noteq> None" by (simp add: st')
  with o show "mock_get_cart_items sci ap u st' =
           (Response 200 (CartItems (map (parsed_line sci) (cart_of ap (carts st) u)
                                       @ [parsed_line sci \<lparr>itemId = n, quantity = k\<rparr>])), st')"
    by (simp add: ordinary_get_cart_items c)
  show "n < 10 ^ 21 \<Longrightarrow> to_double (nat n) = Some (nat n) \<Longrightarrow>
         k < 10 ^ 21 \<Longrightarrow> to_double (nat k) = Some (nat k) \<Longrightarrow>
           parsed_line sci \<lparr>itemId = n, quantity = k\<rparr> = (JNum (of_int n), JNum (of_int k))"
    using assms(3,5) by (simp add: parsed_line_small)
qed

lemma add_twice_two_lines:
  assumes "ordinary ap (carts st) u"
    and "coerce i = JNum (of_int n)" and "0 < n" and "coerce q = JNum (of_int k)" and "0 < k"
    and "coerce q' = JNum (of_int k')" and "0 < k'"
    and "catalog n = Resolved d" and "truthy d"
  shows "cart_of ap (carts (snd (mock_post_cart catalog ap u i q'
                       (snd (mock_post_cart catalog ap u i q st))))) u
           = cart_of ap (carts st) u @ [\<lparr>itemId = n, quantity = k\<rparr>, \<lparr>itemId = n, quantity = k'\<rparr>]"
proof -
  obtain r st' where a: "mock_post_cart catalog ap u i q st = (r, st')" by (cases "mock_post_cart catalog ap u i q st")
  note A = add_then_list(1,2) [OF assms(1-5) assms(8,9) a]
  obtain r' st'' where b: "mock_post_cart catalog ap u i q' st' = (r', st'')"
    by (cases "mock_post_cart catalog ap u i q' st'")
  note B = add_then_list(1) [OF A(2) assms(2,3) assms(6,7) assms(8,9) b]
  show ?thesis by (simp add: a b A(1) B)
qed

text \<open>
  C4 at a quantity of \<open>10^21\<close>, which \<open>POST /cart\<close> accepts as a positive integer:
  \<open>GET /cart/items\<close> passes the stored number to \<open>parseInt\<close>, which reads its string
  \<open>1e+21\<close> up to the \<open>e\<close>, so the line just added is listed with quantity 1.
\<close>

theorem large_quantity_listed_as_one:
  "(let (r1, s1) = mock_post_cart (\<lambda>_. Resolved (JObj [])) Map.empty ''alice'' (JNum 1)
                     (JNum (10 ^ 21)) \<lparr>carts = None, checkoutCompleted = Map.empty\<rparr>;
        (r2, s2) = mock_get_cart_items (\<lambda>_. ''1e+21'') Map.empty ''alice'' s1
    in (r1, r2)) =
     (Response 200 (MessageCart ''Item added to cart'' [\<lparr>itemId = 1, quantity = 10 ^ 21\<rparr>]),
      Response 200 (CartItems [(JNum 1, JNum 1)]))"
proof -
  let ?s0 = "\<lparr>carts = None, checkoutCompleted = Map.empty\<rparr> :: mock_state"
  let ?s1 = "\<lparr>carts = Some \<lparr>own = [''alice'' \<mapsto> Arr [\<lparr>itemId = 1, quantity = 10 ^ 21\<rparr>]],
                             proto = None\<rparr>,
              checkoutCompleted = Map.empty\<rparr>"
  have q: "coerce (JNum (10 ^ 21)) = JNum (of_int (10 ^ 21))" by simp
  have i: "coerce (JNum 1) = JNum (of_int 1)" by simp
  have pl: "plain Map.empty ''alice''"
    by (simp add: plain_def not_inherited_def Object_prototype_def numeric_name_def is_digit_def)
  have o: "ordinary Map.empty (carts ?s0) ''alice''" using pl by (simp add: ordinary_def)
  have add: "mock_post_cart (\<lambda>_. Resolved (JObj [])) Map.empty ''alice'' (JNum 1) (JNum (10 ^ 21)) ?s0 =
      (Response 200 (MessageCart ''Item added to cart'' [\<lparr>itemId = 1, quantity = 10 ^ 21\<rparr>]), ?s1)"
    by (subst mock_post_cart_accept [OF o i _ q, where d = "JObj []"]) (simp_all add: cart_of_def)
  have one: "parseInt (Number_toString (\<lambda>_. ''1e+21'') 1) = JNum 1"
    using parseInt_Number_toString [of 1 "\<lambda>_. ''1e+21''"] by (simp add: to_double_def)
  have big: "parseInt (Number_toString (\<lambda>_. ''1e+21'') (10 ^ 21)) = JNum 1"
    by (simp add: Number_toString_def parseInt_def is_ws_def is_digit_def digits_val_def
        digit_val_def to_double_def)
  have list: "mock_get_cart_items (\<lambda>_. ''1e+21'') Map.empty ''alice'' ?s1 =
      (Response 200 (CartItems [(JNum 1, JNum 1)]), ?s1)"
    using one big by (simp add: mock_get_cart_items_def parsed_line_def lookup_def)
  show ?thesis
    by (simp only: add Let_def split_conv list)
qed

theorem large_quantity_listed_as_one_witness:
  "snd (let (r1, s1) = mock_post_cart (\<lambda>_. Resolved (JObj [])) Map.empty ''alice'' (JNum 1)
                     (JNum (10 ^ 21)) \<lparr>carts = None, checkoutCompleted = Map.empty\<rparr>;
        (r2, s2) = mock_get_cart_items (\<lambda>_. ''1e+21'') Map.empty ''alice'' s1
    in (r1, r2)) = Response 200 (CartItems [(JNum 1, JNum 1)])"
  by (simp only: large_quantity_listed_as_one snd_conv)

subsection \<open>Removing a line\<close>

lemma findIndex_None: "findIndex p xs = None \<longleftrightarrow> (\<forall>x \<in> set xs. \<not> p x)"
  by (induction xs) (auto split: option.splits)

lemma findIndex_first:
  "\<forall>x \<in> set pre. \<not> p x \<Longrightarrow> p l \<Longrightarrow> findIndex p (pre @ l # post) = Some (length pre)"
  by (induction pre) auto

lemma splice1_at: "splice1 (length pre) (pre @ l # post) = pre @ post"
  by (simp add: splice1_def)

lemma remove_no_match:
  assumes "carts st = Some c" and "ordinary ap (carts st) u"
    and "coerce i = JNum (of_int n)" and "0 < n"
    and "\<forall>l \<in> set (cart_of ap (carts st) u). itemId l \<noteq> n"
  shows "mock_delete_cart_items ap u i st = (Response 400 (Error ''Item not found in the cart''), st)"
proof -
  have "findIndex (\<lambda>item. itemId item = n) (cart_of ap (carts st) u) = None"
    using assms(5) by (simp add: findIndex_None)
  moreover have "array_or_empty (lookup ap c u) = Some (cart_of ap (carts st) u)"
    using assms(1,2) by (simp add: ordinary_array)
  ultimately show ?thesis using assms(1,3,4)
    by (simp add: mock_delete_cart_items_def Let_def)
qed

lemma remove_first_match:
  assumes "carts st = Some c" and "ordinary ap (carts st) u"
    and "coerce i = JNum (of_int n)" and "0 < n"
    and "cart_of ap (carts st) u = pre @ l # post"
    and "\<forall>x \<in> set pre. itemId x \<noteq> n" and "itemId l = n"
  shows "mock_delete_cart_items ap u i st =
           (Response 200 (MessageDeleted ''Item deleted from the cart'' l),
            st\<lparr>carts := Some (c\<lparr>own := (own c)(u \<mapsto> Arr (pre @ post))\<rparr>)\<rparr>)"
    and "cart_of ap (Some (c\<lparr>own := (own c)(u \<mapsto> Arr (pre @ post))\<rparr>)) u = pre @ post"
proof -
  have p: "plain ap u" using assms(2) by (rule ordinary_plain)
  have "findIndex (\<lambda>item. itemId item = n) (pre @ l # post) = Some (length pre)"
    using assms(6,7) by (simp add: findIndex_first)
  moreover have "array_or_empty (lookup ap c u) = Some (pre @ l # post)"
    using assms(1,2,5) by (simp add: ordinary_array)
  ultimately show "mock_delete_cart_items ap u i st =
           (Response 200 (MessageDeleted ''Item deleted from the cart'' l),
            st\<lparr>carts := Some (c\<lparr>own := (own c)(u \<mapsto> Arr (pre @ post))\<rparr>)\<rparr>)"
    using assms(1,3,4)
    by (simp add: mock_delete_cart_items_def Let_def splice1_at plain_assign_array [OF p])
  show "cart_of ap (Some (c\<lparr>own := (own c)(u \<mapsto> Arr (pre @ post))\<rparr>)) u = pre @ post"
    using p by (simp add: cart_of_own_update)
qed

text \<open>
  C5 before the first line is ever added: \<open>global.carts\<close> is still \<open>undefined\<close>, the
  handler reads \<open>global.carts[req.username]\<close> without the guard that \<open>POST /checkout\<close>
  has, and the request to remove a line from the (empty) cart ends in the error handler
  with 500, not with the 400 of a line that is not in the cart.
\<close>

theorem remove_before_first_add:
  "mock_delete_cart_items Map.empty ''alice'' (JNum 1)
       \<lparr>carts = None, checkoutCompleted = Map.empty\<rparr>
     = (Response 500 (Error ''Internal server error''),
        \<lparr>carts = None, checkoutCompleted = Map.empty\<rparr>)"
  by (simp add: mock_delete_cart_items_def)

theorem remove_before_first_add_witness:
  "status (fst (mock_delete_cart_items Map.empty ''alice'' (JNum 1)
      \<lparr>carts = None, checkoutCompleted = Map.empty\<rparr>)) = 500
   \<and> cart_of Map.empty (carts \<lparr>carts = None, checkoutCompleted = Map.empty\<rparr>) ''alice''
       = ([] :: cart_line list)"
  by (simp only: remove_before_first_add fst_conv response.sel) (simp add: cart_of_def)

subsection \<open>Validation of a line\<close>

lemma positive_integer_truthy: "positive_integer v \<Longrightarrow> truthy v"
  by (cases v) (auto simp: positive_integer_def)

lemma positive_integer_int: "positive_integer v \<Longrightarrow> v = JNum (of_int (int_of v)) \<and> 0 < int_of v"
proof (cases v)
  case (JNum r)
  assume "positive_integer v"
  with JNum have r: "r = of_int \<lfloor>r\<rfloor>" and pos: "0 < r"
    by (simp_all add: positive_integer_def)
  from pos have "0 < \<lfloor>r\<rfloor>" using r by (metis of_int_0_less_iff)
  with JNum r show ?thesis by simp
qed (simp_all add: positive_integer_def)

lemma non_numeric_rejected: "non_numeric v \<Longrightarrow> \<not> positive_integer (coerce v)"
  by (cases v) (auto simp: non_numeric_def positive_integer_def)

lemma mock_post_cart_cases:
  "mock_post_cart catalog ap u i q st =
     (if \<not> (positive_integer (coerce i) \<and> positive_integer (coerce q))
      then (Response 400 (Error
              (if \<not> truthy (coerce i) \<or> \<not> truthy (coerce q)
               then ''Item ID and quantity are required''
               else if \<not> positive_integer (coerce i)
               then ''Invalid item ID, must be a positive integer''
               else ''Invalid quantity, must be a positive integer'')), st)
      else (case catalog (int_of (coerce i)) of
              Rejected r \<Rightarrow>
                if r = Some 404 then (Response 404 (Error ''Item not found''), st)
                else (Response 500 (Error ''Internal server error while validating item''), st)
            | Resolved d \<Rightarrow>
                if \<not> truthy d then (Response 404 (Error ''Item not found''), st)
                else
                  (case add_line ap
                          (case carts st of None \<Rightarrow> \<lparr>own = Map.empty, proto = None\<rparr> | Some c \<Rightarrow> c) u
                          \<lparr>itemId = int_of (coerce i), quantity = int_of (coerce q)\<rparr> of
                     (None, c') \<Rightarrow>
                       (Response 500 (Error ''Internal server error while validating item''),
                        st\<lparr>carts := Some c'\<rparr>)
                   | (Some cart, c') \<Rightarrow>
                       (Response 200 (MessageCart ''Item added to cart'' cart),
                        st\<lparr>carts := Some c'\<rparr>))))"
proof -
  let ?I = "coerce i" and ?Q = "coerce q"
  consider (required) "\<not> truthy ?I \<or> \<not> truthy ?Q"
    | (item) "truthy ?I" "truthy ?Q" "\<not> positive_integer ?I"
    | (quantity) "truthy ?I" "truthy ?Q" "positive_integer ?I" "\<not> positive_integer ?Q"
    | (valid) "positive_integer ?I" "positive_integer ?Q"
    using positive_integer_truthy by blast
  then show ?thesis
  proof cases
    case required
    then have "\<not> (positive_integer ?I \<and> positive_integer ?Q)"
      using positive_integer_truthy by blast
    with required show ?thesis by (simp add: mock_post_cart_def Let_def)
  next
    case item
    then show ?thesis by (simp add: mock_post_cart_def Let_def positive_integer_def)
  next
    case quantity
    then show ?thesis by (simp add: mock_post_cart_def Let_def positive_integer_def)
  next
    case valid
    then have "truthy ?I" "truthy ?Q" using positive_integer_truthy by blast+
    with valid show ?thesis
      by (simp add: mock_post_cart_def Let_def positive_integer_def split: axios.splits)
  qed
qed

lemma mock_post_cart_valid:
  assumes "positive_integer (coerce i)" and "positive_integer (coerce q)"
    and "catalog (int_of (coerce i)) = Resolved d" and "truthy d"
    and "ordinary ap (carts st) u"
  shows "mock_post_cart catalog ap u i q st =
     (Response 200 (MessageCart ''Item added to cart''
        (cart_of ap (carts st) u @ [\<lparr>itemId = int_of (coerce i), quantity = int_of (coerce q)\<rparr>])),
      st\<lparr>carts := Some
           ((case carts st of None \<Rightarrow> \<lparr>own = Map.empty, proto = None\<rparr> | Some c \<Rightarrow> c)
              \<lparr>own := (own (case carts st of None \<Rightarrow> \<lparr>own = Map.empty, proto = None\<rparr> | Some c \<Rightarrow> c))
                        (u \<mapsto> Arr (cart_of ap (carts st) u
                           @ [\<lparr>itemId = int_of (coerce i), quantity = int_of (coerce q)\<rparr>]))\<rparr>)\<rparr>)"
  using assms(1-4) by (simp add: mock_post_cart_cases ordinary_state_add_line [OF assms(5)])

lemma basic_post_cart_valid:
  assumes "truthy i" and "truthy q" and "ordinary ap b u"
  shows "basic_post_cart ap u i q b =
     (Response 200 (MessageCart ''Item added to cart''
        (cart_of ap b u @ [\<lparr>raw_itemId = i, raw_quantity = q\<rparr>])),
      Some ((case b of None \<Rightarrow> \<lparr>own = Map.empty, proto = None\<rparr> | Some c \<Rightarrow> c)
              \<lparr>own := (own (case b of None \<Rightarrow> \<lparr>own = Map.empty, proto = None\<rparr> | Some c \<Rightarrow> c))
                        (u \<mapsto> Arr (cart_of ap b u @ [\<lparr>raw_itemId = i, raw_quantity = q\<rparr>]))\<rparr>))"
  using assms(1,2) by (simp add: basic_post_cart_def Let_def ordinary_state_add_line [OF assms(3)])

lemma trim_digits:
  assumes "ds \<noteq> []" and "list_all is_digit ds"
  shows "trim ds = ds"
proof -
  have nws: "\<And>c. is_digit c \<Longrightarrow> \<not> is_ws c" by (auto simp: is_digit_def is_ws_def)
  obtain c cs where ds: "ds = c # cs" using assms(1) by (cases ds) auto
  with assms(2) nws have "dropWhile is_ws ds = ds" by simp
  moreover obtain b bs where r: "rev ds = b # bs" using assms(1) by (cases "rev ds") auto
  then have "b \<in> set ds" by (metis list.set_intros(1) set_rev)
  with assms(2) nws have "\<not> is_ws b" by (simp add: list_all_iff)
  with r have "dropWhile is_ws (rev ds) = rev ds" by simp
  ultimately show ?thesis by (simp add: trim_def)
qed

lemma isNaN_digits:
  assumes "ds \<noteq> []" and "list_all is_digit ds"
  shows "\<not> isNaN ds"
proof -
  obtain c cs where ds: "ds = c # cs" using assms(1) by (cases ds) auto
  with assms(2) have "is_digit c" by simp
  then have nsign: "c \<noteq> CHR ''-''" "c \<noteq> CHR ''+''" by (auto simp: is_digit_def)
  have tw: "takeWhile is_digit ds = ds" and dw: "dropWhile is_digit ds = []"
    using assms(2) by (simp_all add: list_all_iff)
  have "unsigned_decimal ds"
    unfolding unsigned_decimal_def tw dw Let_def using assms(1) by (simp add: exponent_opt_def)
  then have "str_decimal ds" using ds nsign by (simp add: str_decimal_def)
  then show ?thesis by (simp add: isNaN_def trim_digits [OF assms])
qed

lemma coerce_digits:
  "coerce (JStr (dec_digits n)) =
     (case to_double n of None \<Rightarrow> JInfinity False | Some v \<Rightarrow> JNum (of_int (int v)))"
  by (simp add: isNaN_digits dec_digits_nonempty dec_digits_all parseInt_digits
      digits_val_dec_digits)

lemma coerce_dec_digits: "n \<le> 2 ^ 53 \<Longrightarrow> coerce (JStr (dec_digits n)) = JNum (of_int (int n))"
  by (simp only: coerce_digits to_double_small option.case)

text \<open>
  C6, as stated, fails on the storefront that derives the token: its \<open>POST /cart\<close> only
  tests that both fields are truthy, so it appends a line whose quantity is the text
  \<open>abc\<close> and whose item it never looks up.
\<close>

theorem unvalidated_line_accepted:
  "basic_post_cart Map.empty ''alice'' (JStr ''no such item'') (JStr ''abc'') None =
     (Response 200 (MessageCart ''Item added to cart''
        [\<lparr>raw_itemId = JStr ''no such item'', raw_quantity = JStr ''abc''\<rparr>]),
      Some \<lparr>own = [''alice'' \<mapsto> Arr [\<lparr>raw_itemId = JStr ''no such item'',
                                        raw_quantity = JStr ''abc''\<rparr>]],
            proto = None\<rparr>)"
  by (simp add: basic_post_cart_def Let_def add_line_def lookup_def inherited_def
      from_Object_prototype_def Object_prototype_def)

text \<open>
  C6, amended.  In the storefront of the mock composition \<open>POST /cart\<close> coerces a string
  that \<open>Number\<close> reads as a number with \<open>parseInt\<close> (a string of decimal digits becomes
  the double nearest to the number it writes, that number itself up to \<open>2^53\<close>, or
  \<open>Infinity\<close>) and then requires both fields to be
  positive integers: if not, and in particular when a field is not numeric, the answer
  is 400 and nothing changes.  It then asks the catalog for the item: a 404 from the
  catalog or an empty body gives 404 \<open>Item not found\<close>, any other failure of the catalog
  500, and nothing changes.  The answer is 200 only with both checks passed; then, for
  an ordinary user of the state, the line is appended to the user's cart and the answer
  is 200 with the whole cart, and for such a user every other answer leaves the state as
  it was.  In the storefront that derives the token \<open>POST /cart\<close> answers 400, changing
  nothing, exactly when a field is falsy; otherwise, with no further validation and no
  catalog, for an ordinary user of the state it appends the two values as they came
  and answers 200 with the whole cart.
\<close>

theorem add_validation:
  "(\<not> (positive_integer (coerce i) \<and> positive_integer (coerce q)) \<longrightarrow>
      status (fst (mock_post_cart catalog ap u i q st)) = 400
      \<and> snd (mock_post_cart catalog ap u i q st) = st)
   \<and> (non_numeric i \<or> non_numeric q \<longrightarrow>
      status (fst (mock_post_cart catalog ap u i q st)) = 400)
   \<and> (positive_integer (coerce i) \<and> positive_integer (coerce q)
       \<and> (catalog (int_of (coerce i)) = Rejected (Some 404)
            \<or> (\<exists>d. catalog (int_of (coerce i)) = Resolved d \<and> \<not> truthy d)) \<longrightarrow>
      mock_post_cart catalog ap u i q st = (Response 404 (Error ''Item not found''), st))
   \<and> (positive_integer (coerce i) \<and> positive_integer (coerce q)
       \<and> (\<exists>r. catalog (int_of (coerce i)) = Rejected r \<and> r \<noteq> Some 404) \<longrightarrow>
      mock_post_cart catalog ap u i q st
        = (Response 500 (Error ''Internal server error while validating item''), st))
   \<and> (ordinary ap (carts st) u
       \<and> positive_integer (coerce i) \<and> positive_integer (coerce q)
       \<and> (\<exists>d. catalog (int_of (coerce i)) = Resolved d \<and> truthy d) \<longrightarrow>
      fst (mock_post_cart catalog ap u i q st) =
        Response 200 (MessageCart ''Item added to cart''
          (cart_of ap (carts st) u
             @ [\<lparr>itemId = int_of (coerce i), quantity = int_of (coerce q)\<rparr>]))
      \<and> cart_of ap (carts (snd (mock_post_cart catalog ap u i q st))) u =
          cart_of ap (carts st) u
            @ [\<lparr>itemId = int_of (coerce i), quantity = int_of (coerce q)\<rparr>])
   \<and> (status (fst (mock_post_cart catalog ap u i q st)) = 200 \<longrightarrow>
      positive_integer (coerce i) \<and> positive_integer (coerce q)
      \<and> (\<exists>d. catalog (int_of (coerce i)) = Resolved d \<and> truthy d))
   \<and> (ordinary ap (carts st) u \<and> status (fst (mock_post_cart catalog ap u i q st)) \<noteq> 200 \<longrightarrow>
      snd (mock_post_cart catalog ap u i q st) = st)
   \<and> coerce (JStr (dec_digits n)) =
       (case to_double n of None \<Rightarrow> JInfinity False | Some v \<Rightarrow> JNum (of_int (int v)))
   \<and> (n \<le> 2 ^ 53 \<longrightarrow> coerce (JStr (dec_digits n)) = JNum (of_int (int n)))
   \<and> (basic_post_cart ap u i q b
          = (Response 400 (Error ''Item ID and quantity are required''), b)
        \<longleftrightarrow> \<not> truthy i \<or> \<not> truthy q)
   \<and> (status (fst (basic_post_cart ap u i q b)) = 400 \<longleftrightarrow> \<not> truthy i \<or> \<not> truthy q)
   \<and> (ordinary ap b u \<and> truthy i \<and> truthy q \<longrightarrow>
      fst (basic_post_cart ap u i q b) =
        Response 200 (MessageCart ''Item added to cart''
          (cart_of ap b u @ [\<lparr>raw_itemId = i, raw_quantity = q\<rparr>]))
      \<and> cart_of ap (snd (basic_post_cart ap u i q b)) u =
          cart_of ap b u @ [\<lparr>raw_itemId = i, raw_quantity = q\<rparr>])"
proof -
  let ?ok = "positive_integer (coerce i) \<and> positive_integer (coerce q)"
  let ?r = "mock_post_cart catalog ap u i q st"
  let ?line = "\<lparr>itemId = int_of (coerce i), quantity = int_of (coerce q)\<rparr>"
  let ?c0 = "case carts st of None \<Rightarrow> \<lparr>own = Map.empty, proto = None\<rparr> | Some c \<Rightarrow> c"
  have invalid: "status (fst ?r) = 400 \<and> snd ?r = st" if "\<not> ?ok"
    using that by (simp add: mock_post_cart_cases)
  have nn: "status (fst ?r) = 400" if "non_numeric i \<or> non_numeric q"
    using that non_numeric_rejected invalid by blast
  have missing: "?r = (Response 404 (Error ''Item not found''), st)"
    if "?ok \<and> (catalog (int_of (coerce i)) = Rejected (Some 404)
            \<or> (\<exists>d. catalog (int_of (coerce i)) = Resolved d \<and> \<not> truthy d))"
    using that by (auto simp: mock_post_cart_cases)
  have failing: "?r = (Response 500 (Error ''Internal server error while validating item''), st)"
    if "?ok \<and> (\<exists>r. catalog (int_of (coerce i)) = Rejected r \<and> r \<noteq> Some 404)"
    using that by (auto simp: mock_post_cart_cases)
  have added: "fst ?r = Response 200 (MessageCart ''Item added to cart''
                  (cart_of ap (carts st) u @ [?line]))
      \<and> cart_of ap (carts (snd ?r)) u = cart_of ap (carts st) u @ [?line]"
    if "ordinary ap (carts st) u \<and> ?ok \<and> (\<exists>d. catalog (int_of (coerce i)) = Resolved d \<and> truthy d)"
  proof -
    from that obtain d where d: "catalog (int_of (coerce i)) = Resolved d" "truthy d" by blast
    from that have o: "ordinary ap (carts st) u" and ok: "positive_integer (coerce i)"
      "positive_integer (coerce q)" by blast+
    have p: "plain ap u" using o by (rule ordinary_plain)
    note eq = mock_post_cart_valid [where catalog = catalog and i = i and q = q and d = d
        and ap = ap and st = st and u = u, OF ok d o]
    show ?thesis
      using p by (simp add: eq cart_of_own_update)
  qed
  have only: "?ok \<and> (\<exists>d. catalog (int_of (coerce i)) = Resolved d \<and> truthy d)"
    if "status (fst ?r) = 200"
  proof (cases ?ok)
    case False
    with invalid that show ?thesis by simp
  next
    case True
    with that show ?thesis
      by (cases "catalog (int_of (coerce i))")
         (auto simp: mock_post_cart_cases split: if_splits)
  qed
  have unchanged: "snd ?r = st" if "ordinary ap (carts st) u \<and> status (fst ?r) \<noteq> 200"
  proof (cases ?ok)
    case False
    with invalid show ?thesis by simp
  next
    case True
    from that have o: "ordinary ap (carts st) u" and s: "status (fst ?r) \<noteq> 200" by blast+
    show ?thesis
    proof (cases "catalog (int_of (coerce i))")
      case (Rejected r)
      with True show ?thesis by (simp add: mock_post_cart_cases)
    next
      case (Resolved d)
      show ?thesis
      proof (cases "truthy d")
        case False
        with True Resolved show ?thesis by (simp add: mock_post_cart_cases)
      next
        case t: True
        from True have ok: "positive_integer (coerce i)" "positive_integer (coerce q)" by blast+
        note eq = mock_post_cart_valid [where catalog = catalog and i = i and q = q and d = d
            and ap = ap and st = st and u = u, OF ok Resolved t o]
        from s show ?thesis by (simp add: eq)
      qed
    qed
  qed
  have digits: "coerce (JStr (dec_digits n)) = JNum (of_int (int n))" if "n \<le> 2 ^ 53"
    using that by (rule coerce_dec_digits)
  have b400: "basic_post_cart ap u i q b
          = (Response 400 (Error ''Item ID and quantity are required''), b)
        \<longleftrightarrow> \<not> truthy i \<or> \<not> truthy q"
    by (auto simp: basic_post_cart_def Let_def split: prod.splits option.splits)
  have bstatus: "status (fst (basic_post_cart ap u i q b)) = 400 \<longleftrightarrow> \<not> truthy i \<or> \<not> truthy q"
    by (auto simp: basic_post_cart_def Let_def split: prod.splits option.splits)
  have badded: "fst (basic_post_cart ap u i q b) =
        Response 200 (MessageCart ''Item added to cart''
          (cart_of ap b u @ [\<lparr>raw_itemId = i, raw_quantity = q\<rparr>]))
      \<and> cart_of ap (snd (basic_post_cart ap u i q b)) u =
          cart_of ap b u @ [\<lparr>raw_itemId = i, raw_quantity = q\<rparr>]"
    if "ordinary ap b u \<and> truthy i \<and> truthy q"
  proof -
    from that have o: "ordinary ap b u" and t: "truthy i" "truthy q" by blast+
    have p: "plain ap u" using o by (rule ordinary_plain)
    show ?thesis using p by (simp add: basic_post_cart_valid [OF t o] cart_of_own_update)
  qed
  show ?thesis
    using invalid nn missing failing added only unchanged coerce_digits digits b400 bstatus badded
    by blast
qed

theorem add_validation_witness:
  "status (fst (mock_post_cart (\<lambda>n. if n = 1 then Resolved (JObj []) else Rejected (Some 404))
       Map.empty ''alice'' (JNum 1) (JStr ''abc'')
       \<lparr>carts = None, checkoutCompleted = Map.empty\<rparr>)) = 400
   \<and> mock_post_cart (\<lambda>n. if n = 1 then Resolved (JObj []) else Rejected (Some 404))
       Map.empty ''alice'' (JStr ''7'') (JNum 2) \<lparr>carts = None, checkoutCompleted = Map.empty\<rparr>
     = (Response 404 (Error ''Item not found''), \<lparr>carts = None, checkoutCompleted = Map.empty\<rparr>)
   \<and> fst (mock_post_cart (\<lambda>n. if n = 1 then Resolved (JObj []) else Rejected (Some 404))
       Map.empty ''alice'' (JStr ''1'') (JStr ''2'')
       \<lparr>carts = None, checkoutCompleted = Map.empty\<rparr>)
     = Response 200 (MessageCart ''Item added to cart'' [\<lparr>itemId = 1, quantity = 2\<rparr>])
   \<and> fst (basic_post_cart Map.empty ''alice'' (JStr ''1'') (JStr ''abc'') None)
     = Response 200 (MessageCart ''Item added to cart''
         [\<lparr>raw_itemId = JStr ''1'', raw_quantity = JStr ''abc''\<rparr>])"
proof -
  let ?cat = "\<lambda>n::int. if n = 1 then Resolved (JObj []) else Rejected (Some 404)"
  let ?s0 = "\<lparr>carts = None, checkoutCompleted = Map.empty\<rparr> :: mock_state"
  have d: "dec_digits 7 = ''7''" "dec_digits 1 = ''1''" "dec_digits 2 = ''2''"
    by (simp_all add: dec_digits.simps digit_char_def)
  have c7: "coerce (JStr ''7'') = JNum 7" using coerce_dec_digits [of 7] by (simp only: d) simp
  have c1: "coerce (JStr ''1'') = JNum 1" using coerce_dec_digits [of 1] by (simp only: d) simp
  have c2: "coerce (JStr ''2'') = JNum 2" using coerce_dec_digits [of 2] by (simp only: d) simp
  have abc: "non_numeric (JStr ''abc'')"
    by (simp add: non_numeric_def isNaN_def trim_def is_ws_def str_decimal_def
        unsigned_decimal_def is_digit_def non_decimal_def)
  have pl: "plain Map.empty ''alice''"
    by (simp add: plain_def not_inherited_def Object_prototype_def numeric_name_def is_digit_def)
  have o: "ordinary Map.empty (carts ?s0) ''alice''" using pl by (simp add: ordinary_def)
  have ob: "ordinary Map.empty (None :: raw_line carts_obj option) ''alice''"
    using pl by (simp add: ordinary_def)
  note A = add_validation [where i = "JNum 1" and q = "JStr ''abc''" and catalog = ?cat
      and ap = Map.empty and u = "''alice''" and st = ?s0 and n = 0 and b = None]
  note B = add_validation [where i = "JStr ''7''" and q = "JNum 2" and catalog = ?cat
      and ap = Map.empty and u = "''alice''" and st = ?s0 and n = 0 and b = None]
  note C = add_validation [where i = "JStr ''1''" and q = "JStr ''2''" and catalog = ?cat
      and ap = Map.empty and u = "''alice''" and st = ?s0 and n = 0 and b = None]
  note D = add_validation [where i = "JStr ''1''" and q = "JStr ''abc''" and catalog = ?cat
      and ap = Map.empty and u = "''alice''" and st = ?s0 and n = 0 and b = None]
  from A abc have a: "status (fst (mock_post_cart ?cat Map.empty ''alice'' (JNum 1) (JStr ''abc'') ?s0)) = 400"
    by blast
  have okB: "positive_integer (coerce (JStr ''7'')) \<and> positive_integer (coerce (JNum 2))
       \<and> (?cat (int_of (coerce (JStr ''7''))) = Rejected (Some 404)
            \<or> (\<exists>d. ?cat (int_of (coerce (JStr ''7''))) = Resolved d \<and> \<not> truthy d))"
    by (simp only: c7) (simp add: positive_integer_def)
  from B okB have b: "mock_post_cart ?cat Map.empty ''alice'' (JStr ''7'') (JNum 2) ?s0
      = (Response 404 (Error ''Item not found''), ?s0)"
    by blast
  have okC: "ordinary Map.empty (carts ?s0) ''alice''
       \<and> positive_integer (coerce (JStr ''1'')) \<and> positive_integer (coerce (JStr ''2''))
       \<and> (\<exists>d. ?cat (int_of (coerce (JStr ''1''))) = Resolved d \<and> truthy d)"
    using o by (simp only: c1 c2) (simp add: positive_integer_def)
  from C okC have "fst (mock_post_cart ?cat Map.empty ''alice'' (JStr ''1'') (JStr ''2'') ?s0) =
        Response 200 (MessageCart ''Item added to cart''
          (cart_of Map.empty (carts ?s0) ''alice'' @ [\<lparr>itemId = int_of (coerce (JStr ''1'')),
                                     quantity = int_of (coerce (JStr ''2''))\<rparr>]))"
    by blast
  then have c: "fst (mock_post_cart ?cat Map.empty ''alice'' (JStr ''1'') (JStr ''2'') ?s0)
     = Response 200 (MessageCart ''Item added to cart'' [\<lparr>itemId = 1, quantity = 2\<rparr>])"
    by (simp only: c1 c2) (simp add: cart_of_def)
  have okD: "ordinary Map.empty (None :: raw_line carts_obj option) ''alice''
      \<and> truthy (JStr ''1'') \<and> truthy (JStr ''abc'')"
    using ob by simp
  from D okD have "fst (basic_post_cart Map.empty ''alice'' (JStr ''1'') (JStr ''abc'') None) =
        Response 200 (MessageCart ''Item added to cart''
          (cart_of Map.empty None ''alice'' @ [\<lparr>raw_itemId = JStr ''1'', raw_quantity = JStr ''abc''\<rparr>]))"
    by blast
  then have d: "fst (basic_post_cart Map.empty ''alice'' (JStr ''1'') (JStr ''abc'') None)
     = Response 200 (MessageCart ''Item added to cart''
         [\<lparr>raw_itemId = JStr ''1'', raw_quantity = JStr ''abc''\<rparr>])"
    by (simp add: cart_of_def)
  show ?thesis using a b c d by (intro conjI)
qed

subsection \<open>The two storefronts compared\<close>

lemma ref_of_map: "ref_of (map_cval f v) = map_cref f (ref_of v)"
  by (cases v) simp_all

lemma inherited_map:
  "inherited ap (map_option (map f) p) k = map_cref f (inherited ap p k)"
  by (cases p) (simp_all add: inherited_def from_Object_prototype_def split: option.splits)

lemma lookup_raw: "lookup ap (raw_carts c) k = map_cref raw_of (lookup ap c k)"
  by (simp add: lookup_def raw_carts_def ref_of_map inherited_map split: option.splits)

lemma has_lines_map: "has_lines (map_cref f r) = has_lines r"
  by (cases r) simp_all

lemma array_or_empty_map:
  "array_or_empty (map_cref f r) = map_option (map f) (array_or_empty r)"
  by (cases r) simp_all

lemma raw_carts_own_update:
  "raw_carts (c\<lparr>own := (own c)(u \<mapsto> v)\<rparr>)
     = (raw_carts c)\<lparr>own := (own (raw_carts c))(u \<mapsto> map_cval raw_of v)\<rparr>"
  by (simp add: raw_carts_def fun_eq_iff)

lemma raw_carts_proto_update:
  "raw_carts (c\<lparr>proto := Some ls\<rparr>) = (raw_carts c)\<lparr>proto := Some (map raw_of ls)\<rparr>"
  by (simp add: raw_carts_def)

lemma raw_carts_sel:
  "own (raw_carts c) k = map_option (map_cval raw_of) (own c k)"
  "proto (raw_carts c) = map_option (map raw_of) (proto c)"
  by (simp_all add: raw_carts_def)

lemma raw_carts_fresh:
  "raw_carts \<lparr>own = Map.empty, proto = None\<rparr> = \<lparr>own = Map.empty, proto = None\<rparr>"
  by (simp add: raw_carts_def)

lemma add_line_raw:
  "add_line ap (raw_carts c) u (raw_of l)
     = (map_option (map raw_of) (fst (add_line ap c u l)), raw_carts (snd (add_line ap c u l)))"
  by (cases "lookup ap c u")
     (simp_all add: add_line_def lookup_raw raw_carts_own_update raw_carts_proto_update)

lemma assign_array_raw:
  "assign_array (raw_carts c) u (map raw_of ls) = raw_carts (assign_array c u ls)"
  by (auto simp: assign_array_def raw_carts_own_update raw_carts_proto_update raw_carts_sel)

lemma cart_of_raw:
  "cart_of ap (map_option raw_carts co) u = map raw_of (cart_of ap co u)"
  by (cases co) (simp_all add: cart_of_def lookup_raw array_or_empty_map split: option.splits)

lemma ordinary_raw: "ordinary ap (map_option raw_carts co) u \<longleftrightarrow> ordinary ap co u"
proof (cases co)
  case None
  then show ?thesis by (simp add: ordinary_def)
next
  case (Some c)
  show ?thesis
  proof (cases "own c u")
    case None
    with Some show ?thesis by (simp add: ordinary_def raw_carts_sel)
  next
    case (Some v)
    with \<open>co = Some c\<close> show ?thesis by (cases v) (simp_all add: ordinary_def raw_carts_sel)
  qed
qed

lemma coerce_positive_integer: "positive_integer v \<Longrightarrow> coerce v = v"
  by (cases v) (simp_all add: positive_integer_def)

lemma falsy_coerce: "\<not> truthy v \<Longrightarrow> \<not> truthy (coerce v)"
proof (cases v)
  case (JStr s)
  assume "\<not> truthy v"
  with JStr have "s = []" by simp
  with JStr show ?thesis
    by (simp add: isNaN_def trim_def parseInt_def)
qed simp_all

lemma add_agrees:
  assumes "same_carts st b" and "agrees catalog st (Add u i q)"
  shows "fst (mock_step catalog ap (Add u i q) st) = fst (basic_step ap (Add u i q) b)
     \<and> same_carts (snd (mock_step catalog ap (Add u i q) st)) (snd (basic_step ap (Add u i q) b))"
proof (cases "\<not> truthy i \<or> \<not> truthy q")
  case True
  then have "\<not> truthy (coerce i) \<or> \<not> truthy (coerce q)" using falsy_coerce by blast
  then have "\<not> (positive_integer (coerce i) \<and> positive_integer (coerce q))"
    using positive_integer_truthy by blast
  then have "mock_step catalog ap (Add u i q) st = (400, st)"
    by (simp add: mock_post_cart_cases)
  moreover from True have "basic_step ap (Add u i q) b = (400, b)"
    by (auto simp: basic_post_cart_def)
  ultimately show ?thesis using assms(1) by simp
next
  case False
  with assms(2) have pi: "positive_integer i" and pq: "positive_integer q"
    and cat: "\<exists>d. catalog (int_of i) = Resolved d \<and> truthy d"
    by (auto split: axios.splits)
  from cat obtain d where d: "catalog (int_of i) = Resolved d" "truthy d" by blast
  have ci: "coerce i = i" and cq: "coerce q = q"
    using pi pq coerce_positive_integer by blast+
  have iq: "i = JNum (of_int (int_of i))" "q = JNum (of_int (int_of q))"
    using pi pq positive_integer_int by blast+
  let ?c = "case carts st of None \<Rightarrow> \<lparr>own = Map.empty, proto = None\<rparr> | Some c \<Rightarrow> c"
  let ?l = "\<lparr>itemId = int_of i, quantity = int_of q\<rparr>"
  have raw: "\<lparr>raw_itemId = i, raw_quantity = q\<rparr> = raw_of ?l"
    using iq by (simp add: raw_of_def)
  have cb: "(case b of None \<Rightarrow> \<lparr>own = Map.empty, proto = None\<rparr> | Some c \<Rightarrow> c) = raw_carts ?c"
    using assms(1) by (simp add: same_carts_def raw_carts_fresh split: option.splits)
  have m: "mock_post_cart catalog ap u i q st =
      (case add_line ap ?c u ?l of
         (None, c') \<Rightarrow>
           (Response 500 (Error ''Internal server error while validating item''),
            st\<lparr>carts := Some c'\<rparr>)
       | (Some cart, c') \<Rightarrow>
           (Response 200 (MessageCart ''Item added to cart'' cart), st\<lparr>carts := Some c'\<rparr>))"
    using pi pq d by (simp add: mock_post_cart_cases ci cq)
  have bb: "basic_post_cart ap u i q b =
      (case add_line ap (raw_carts ?c) u (raw_of ?l) of
         (None, c') \<Rightarrow> (Response 500 (Error ''Internal server error''), Some c')
       | (Some cart, c') \<Rightarrow> (Response 200 (MessageCart ''Item added to cart'' cart), Some c'))"
    using pi pq by (simp add: basic_post_cart_def positive_integer_truthy Let_def cb raw)
  obtain x c' where a: "add_line ap ?c u ?l = (x, c')" by (cases "add_line ap ?c u ?l")
  show ?thesis
    by (cases x) (simp_all add: m bb add_line_raw a same_carts_def)
qed

lemma checkout_agrees:
  assumes "same_carts st b"
  shows "fst (mock_step catalog ap (Checkout u) st) = fst (basic_step ap (Checkout u) b)
     \<and> same_carts (snd (mock_step catalog ap (Checkout u) st))
          (snd (basic_step ap (Checkout u) b))"
proof (cases "carts st")
  case None
  with assms show ?thesis
    by (simp add: same_carts_def mock_post_checkout_def basic_post_checkout_def)
next
  case (Some c)
  with assms have b: "b = Some (raw_carts c)" by (simp add: same_carts_def)
  have e: "assign_array (raw_carts c) u [] = raw_carts (assign_array c u [])"
    using assign_array_raw [of c u "[]"] by simp
  show ?thesis
    by (simp add: Some b mock_post_checkout_def basic_post_checkout_def lookup_raw
        has_lines_map same_carts_def e)
qed

lemma pay_compared:
  "same_carts st b \<Longrightarrow>
     same_carts (snd (mock_step catalog ap (Pay u) st)) (snd (basic_step ap (Pay u) b))
     \<and> fst (basic_step ap (Pay u) b) = 200
     \<and> (fst (mock_step catalog ap (Pay u) st) = 200 \<longleftrightarrow> flag_set (checkoutCompleted st) u)
     \<and> (fst (mock_step catalog ap (Pay u) st) = 400 \<longleftrightarrow> \<not> flag_set (checkoutCompleted st) u)"
  by (simp add: mock_post_payment_def basic_post_payment_def same_carts_def)

lemma step_agrees:
  assumes "same_carts st b" and "agrees catalog st r"
  shows "fst (mock_step catalog ap r st) = fst (basic_step ap r b)
     \<and> same_carts (snd (mock_step catalog ap r st)) (snd (basic_step ap r b))"
proof (cases r)
  case (Add u i q)
  with assms show ?thesis using add_agrees by blast
next
  case (Checkout u)
  with assms show ?thesis using checkout_agrees by blast
next
  case (Pay u)
  with assms show ?thesis using pay_compared [of st b catalog ap u] by simp
qed

lemma run_agrees:
  "same_carts st b \<Longrightarrow> all_agree catalog ap rs st \<Longrightarrow>
     fst (mock_run catalog ap rs st) = fst (basic_run ap rs b)
     \<and> same_carts (snd (mock_run catalog ap rs st)) (snd (basic_run ap rs b))"
proof (induction rs arbitrary: st b)
  case Nil
  then show ?case by simp
next
  case (Cons r rs)
  from Cons.prems have ag: "agrees catalog st r" by simp
  note S = step_agrees [where catalog = catalog and ap = ap, OF Cons.prems(1) ag]
  from S have s: "fst (mock_step catalog ap r st) = fst (basic_step ap r b)"
    and c: "same_carts (snd (mock_step catalog ap r st)) (snd (basic_step ap r b))"
    by blast+
  from Cons.prems have "all_agree catalog ap rs (snd (mock_step catalog ap r st))" by simp
  from Cons.IH [OF c this] s show ?case by simp
qed

text \<open>For an ordinary user every other request is answered differently by the two
  storefronts, or leaves them holding different carts.\<close>

lemma step_differs:
  assumes "same_carts st b" and "ordinary ap (carts st) (user_of r)"
    and "\<not> agrees catalog st r"
  shows "(fst (mock_step catalog ap r st) \<in> {400, 404, 500} \<and> fst (basic_step ap r b) = 200)
     \<or> \<not> same_carts (snd (mock_step catalog ap r st)) (snd (basic_step ap r b))"
proof (cases r)
  case (Add u i q)
  with assms(3) have t: "truthy i" "truthy q"
    and na: "\<not> (positive_integer i \<and> positive_integer q
       \<and> (case catalog (int_of i) of Resolved d \<Rightarrow> truthy d | Rejected _ \<Rightarrow> False))"
    by simp_all
  from assms(2) Add have o: "ordinary ap (carts st) u" by simp
  have ob: "ordinary ap b u" using o assms(1) by (simp add: same_carts_def ordinary_raw)
  have p: "plain ap u" using o by (rule ordinary_plain)
  note B = basic_post_cart_valid [OF t ob]
  have b200: "fst (basic_step ap r b) = 200" by (simp add: Add B)
  show ?thesis
  proof (cases "positive_integer (coerce i) \<and> positive_integer (coerce q)")
    case False
    then have "fst (mock_step catalog ap r st) = 400"
      by (simp add: Add mock_post_cart_cases)
    with b200 show ?thesis by simp
  next
    case True
    then have ok: "positive_integer (coerce i)" "positive_integer (coerce q)" by blast+
    show ?thesis
    proof (cases "catalog (int_of (coerce i))")
      case (Rejected x)
      with True have "fst (mock_step catalog ap r st) \<in> {400, 404, 500}"
        by (simp add: Add mock_post_cart_cases)
      with b200 show ?thesis by simp
    next
      case (Resolved d)
      show ?thesis
      proof (cases "truthy d")
        case False
        with True Resolved have "fst (mock_step catalog ap r st) \<in> {400, 404, 500}"
          by (simp add: Add mock_post_cart_cases)
        with b200 show ?thesis by simp
      next
        case td: True
        note M = mock_post_cart_valid [where catalog = catalog and i = i and q = q and d = d
            and ap = ap and st = st and u = u, OF ok Resolved td o]
        let ?l = "\<lparr>itemId = int_of (coerce i), quantity = int_of (coerce q)\<rparr>"
        have "\<not> same_carts (snd (mock_step catalog ap r st)) (snd (basic_step ap r b))"
        proof
          assume s: "same_carts (snd (mock_step catalog ap r st)) (snd (basic_step ap r b))"
          have "cart_of ap (snd (basic_step ap r b)) u
                  = map raw_of (cart_of ap (carts (snd (mock_step catalog ap r st))) u)"
            using s by (simp add: same_carts_def cart_of_raw)
          moreover have "cart_of ap (snd (basic_step ap r b)) u
                  = cart_of ap b u @ [\<lparr>raw_itemId = i, raw_quantity = q\<rparr>]"
            using p by (simp add: Add B cart_of_own_update)
          moreover have "cart_of ap (carts (snd (mock_step catalog ap r st))) u
                  = cart_of ap (carts st) u @ [?l]"
            using p by (simp add: Add M cart_of_own_update)
          moreover have "cart_of ap b u = map raw_of (cart_of ap (carts st) u)"
            using assms(1) by (simp add: same_carts_def cart_of_raw)
          ultimately have "\<lparr>raw_itemId = i, raw_quantity = q\<rparr> = raw_of ?l" by simp
          then have i: "i = JNum (of_int (int_of (coerce i)))"
            and q: "q = JNum (of_int (int_of (coerce q)))"
            by (simp_all add: raw_of_def)
          have "coerce i = i" by (subst (2) i, subst i) simp
          moreover have "coerce q = q" by (subst (2) q, subst q) simp
          ultimately show False using na ok Resolved td by simp
        qed
        then show ?thesis by simp
      qed
    qed
  qed
next
  case (Checkout u)
  with assms(3) show ?thesis by simp
next
  case (Pay u)
  with assms(3) have "\<not> flag_set (checkoutCompleted st) u" by simp
  then show ?thesis
    by (simp add: Pay mock_post_payment_def basic_post_payment_def)
qed


text \<open>
  C9, as stated, fails: starting both storefronts empty, an add with the quantity
  \<open>abc\<close>, an add of an item the catalog does not have and a payment with no checkout are
  answered 400, 404, 400 by the storefront of the mock composition and 200, 200, 200 by
  the storefront that derives the token, whose cart then holds two lines.  And an add
  of the strings \<open>1\<close> and \<open>2\<close>, which both answer 200, leaves the numbers 1 and 2 in the
  cart of the one and the two strings in the cart of the other.
\<close>

theorem storefronts_differ:
  "fst (mock_run (\<lambda>n. if n = 1 then Resolved (JObj []) else Rejected (Some 404)) Map.empty
         [Add ''alice'' (JNum 1) (JStr ''abc''), Add ''alice'' (JNum 7) (JNum 1), Pay ''alice'']
         \<lparr>carts = None, checkoutCompleted = Map.empty\<rparr>) = [400, 404, 400]
   \<and> basic_run Map.empty
         [Add ''alice'' (JNum 1) (JStr ''abc''), Add ''alice'' (JNum 7) (JNum 1), Pay ''alice'']
         None
       = ([200, 200, 200],
          Some \<lparr>own = [''alice'' \<mapsto> Arr [\<lparr>raw_itemId = JNum 1, raw_quantity = JStr ''abc''\<rparr>,
                                         \<lparr>raw_itemId = JNum 7, raw_quantity = JNum 1\<rparr>]],
                proto = None\<rparr>)
   \<and> mock_run (\<lambda>n. if n = 1 then Resolved (JObj []) else Rejected (Some 404)) Map.empty
         [Add ''alice'' (JStr ''1'') (JStr ''2'')]
         \<lparr>carts = None, checkoutCompleted = Map.empty\<rparr>
       = ([200],
          \<lparr>carts = Some \<lparr>own = [''alice'' \<mapsto> Arr [\<lparr>itemId = 1, quantity = 2\<rparr>]], proto = None\<rparr>,
           checkoutCompleted = Map.empty\<rparr>)
   \<and> basic_run Map.empty [Add ''alice'' (JStr ''1'') (JStr ''2'')] None
       = ([200],
          Some \<lparr>own = [''alice'' \<mapsto> Arr [\<lparr>raw_itemId = JStr ''1'', raw_quantity = JStr ''2''\<rparr>]],
                proto = None\<rparr>)"
proof -
  let ?cat = "\<lambda>n::int. if n = 1 then Resolved (JObj []) else Rejected (Some 404)"
  let ?s0 = "\<lparr>carts = None, checkoutCompleted = Map.empty\<rparr> :: mock_state"
  have abc: "isNaN ''abc''"
    by (simp add: isNaN_def trim_def is_ws_def str_decimal_def
        unsigned_decimal_def is_digit_def non_decimal_def)
  have d: "dec_digits 1 = ''1''" "dec_digits 2 = ''2''"
    by (simp_all add: dec_digits.simps digit_char_def)
  have c1: "coerce (JStr ''1'') = JNum 1" using coerce_dec_digits [of 1] by (simp only: d) simp
  have c2: "coerce (JStr ''2'') = JNum 2" using coerce_dec_digits [of 2] by (simp only: d) simp
  have 1: "fst (mock_run ?cat Map.empty
         [Add ''alice'' (JNum 1) (JStr ''abc''), Add ''alice'' (JNum 7) (JNum 1), Pay ''alice'']
         ?s0) = [400, 404, 400]"
    by (simp add: abc mock_post_cart_def mock_post_payment_def Let_def flag_set_def
        Object_prototype_def)
  have 2: "basic_run Map.empty
         [Add ''alice'' (JNum 1) (JStr ''abc''), Add ''alice'' (JNum 7) (JNum 1), Pay ''alice'']
         None
       = ([200, 200, 200],
          Some \<lparr>own = [''alice'' \<mapsto> Arr [\<lparr>raw_itemId = JNum 1, raw_quantity = JStr ''abc''\<rparr>,
                                         \<lparr>raw_itemId = JNum 7, raw_quantity = JNum 1\<rparr>]],
                proto = None\<rparr>)"
    by (simp add: basic_post_cart_def basic_post_payment_def Let_def add_line_def
        lookup_def inherited_def from_Object_prototype_def Object_prototype_def)
  have 3: "mock_run ?cat Map.empty [Add ''alice'' (JStr ''1'') (JStr ''2'')] ?s0
       = ([200],
          \<lparr>carts = Some \<lparr>own = [''alice'' \<mapsto> Arr [\<lparr>itemId = 1, quantity = 2\<rparr>]], proto = None\<rparr>,
           checkoutCompleted = Map.empty\<rparr>)"
    by (simp add: mock_post_cart_def c1 c2 Let_def add_line_def
        lookup_def inherited_def from_Object_prototype_def Object_prototype_def del: coerce.simps)
  have 4: "basic_run Map.empty [Add ''alice'' (JStr ''1'') (JStr ''2'')] None
       = ([200],
          Some \<lparr>own = [''alice'' \<mapsto> Arr [\<lparr>raw_itemId = JStr ''1'', raw_quantity = JStr ''2''\<rparr>]],
                proto = None\<rparr>)"
    by (simp add: basic_post_cart_def Let_def add_line_def
        lookup_def inherited_def from_Object_prototype_def Object_prototype_def)
  show ?thesis using 1 2 3 4 by (intro conjI)
qed

text \<open>
  C9, amended.  On the three routes both storefronts register, from states that hold
  the same carts, the two storefronts answer with the same statuses, and end holding
  the same carts, every run of requests each of which is a checkout, an add that lacks
  a field, an add of positive integers (numbers) for an item the catalog returns, or a
  payment that finds the user's checkout flag set.  For an ordinary user of the state
  every other request is answered 400, 404 or 500 by the storefront of the mock
  composition and 200 by the storefront that derives the token, or leaves them holding
  different carts.  A payment leaves the carts the same in both; the storefront that
  derives the token, which keeps no flag, answers it 200 always, the storefront of the
  mock composition exactly when it finds the flag set, which for a name under which
  \<open>global.checkoutCompleted\<close> inherits nothing is when the flag is \<open>true\<close>.
\<close>

theorem storefronts_agree:
  assumes "same_carts st b"
  shows "(all_agree catalog ap rs st \<longrightarrow>
            fst (mock_run catalog ap rs st) = fst (basic_run ap rs b)
            \<and> same_carts (snd (mock_run catalog ap rs st)) (snd (basic_run ap rs b)))
     \<and> (ordinary ap (carts st) (user_of r) \<and> \<not> agrees catalog st r \<longrightarrow>
          (fst (mock_step catalog ap r st) \<in> {400, 404, 500} \<and> fst (basic_step ap r b) = 200)
          \<or> \<not> same_carts (snd (mock_step catalog ap r st)) (snd (basic_step ap r b)))
     \<and> same_carts (snd (mock_step catalog ap (Pay u) st)) (snd (basic_step ap (Pay u) b))
     \<and> fst (basic_step ap (Pay u) b) = 200
     \<and> (fst (mock_step catalog ap (Pay u) st) = 200 \<longleftrightarrow> flag_set (checkoutCompleted st) u)
     \<and> (not_inherited u \<longrightarrow>
          (flag_set (checkoutCompleted st) u \<longleftrightarrow> checkoutCompleted st u = Some True))"
proof -
  note R = run_agrees [where catalog = catalog and ap = ap and rs = rs, OF assms]
  note D = step_differs [where catalog = catalog and ap = ap and r = r, OF assms]
  note P = pay_compared [where catalog = catalog and ap = ap and u = u, OF assms]
  have F: "flag_set (checkoutCompleted st) u \<longleftrightarrow> checkoutCompleted st u = Some True"
    if "not_inherited u"
    using that by (auto simp: flag_set_def not_inherited_def split: option.splits)
  from R D P F show ?thesis by blast
qed

theorem storefronts_agree_witness:
  "fst (mock_run (\<lambda>n. if n = 1 then Resolved (JObj []) else Rejected (Some 404)) Map.empty
         [Add ''alice'' (JNum 1) (JNum 2), Checkout ''alice'', Pay ''alice'',
          Add ''alice'' JUndefined (JNum 1), Checkout ''alice'']
         \<lparr>carts = None, checkoutCompleted = Map.empty\<rparr>)
     = fst (basic_run Map.empty
         [Add ''alice'' (JNum 1) (JNum 2), Checkout ''alice'', Pay ''alice'',
          Add ''alice'' JUndefined (JNum 1), Checkout ''alice''] None)
   \<and> fst (basic_run Map.empty
         [Add ''alice'' (JNum 1) (JNum 2), Checkout ''alice'', Pay ''alice'',
          Add ''alice'' JUndefined (JNum 1), Checkout ''alice''] None)
     = [200, 200, 200, 400, 400]"
proof -
  let ?cat = "\<lambda>n::int. if n = 1 then Resolved (JObj []) else Rejected (Some 404)"
  let ?rs = "[Add ''alice'' (JNum 1) (JNum 2), Checkout ''alice'', Pay ''alice'',
          Add ''alice'' JUndefined (JNum 1), Checkout ''alice'']"
  let ?s0 = "\<lparr>carts = None, checkoutCompleted = Map.empty\<rparr> :: mock_state"
  have s: "same_carts ?s0 None"
    by (simp add: same_carts_def)
  have a: "all_agree ?cat Map.empty ?rs ?s0"
    by (simp add: positive_integer_def mock_post_cart_def mock_post_checkout_def
        mock_post_payment_def Let_def add_line_def lookup_def inherited_def
        from_Object_prototype_def Object_prototype_def assign_array_def
        assign_flag_def flag_set_def)
  from storefronts_agree [where st = ?s0 and b = None and catalog = ?cat and ap = Map.empty
      and rs = ?rs and r = "Checkout ''alice''" and u = "''alice''", OF s] a
  have "fst (mock_run ?cat Map.empty ?rs ?s0) = fst (basic_run Map.empty ?rs None)" by blast
  moreover have "fst (basic_run Map.empty ?rs None) = [200, 200, 200, 400, 400]"
    by (simp add: basic_post_cart_def basic_post_checkout_def basic_post_payment_def Let_def
        add_line_def lookup_def inherited_def from_Object_prototype_def Object_prototype_def
        assign_array_def)
  ultimately show ?thesis by (rule conjI)
qed

subsection \<open>Frame: the other users\<close>

lemma plain_cart_of_cong:
  "plain ap v \<Longrightarrow> own c' v = own c v \<Longrightarrow> cart_of ap (Some c') v = cart_of ap (Some c) v"
  by (simp add: cart_of_def plain_lookup)

lemma add_line_own: "v \<noteq> u \<Longrightarrow> own (snd (add_line ap c u l)) v = own c v"
  by (cases "lookup ap c u") (simp_all add: add_line_def)

lemma assign_array_own: "v \<noteq> u \<Longrightarrow> own (assign_array c u ls) v = own c v"
  by (simp add: assign_array_def)

lemma assign_flag_other: "v \<noteq> u \<Longrightarrow> assign_flag f u x v = f v"
  by (simp add: assign_flag_def)

lemma cart_of_created:
  "plain ap v \<Longrightarrow>
     cart_of ap (Some (case co of None \<Rightarrow> \<lparr>own = Map.empty, proto = None\<rparr> | Some c \<Rightarrow> c)) v
       = cart_of ap co v"
  by (cases co) (simp_all add: cart_of_fresh)

lemma add_line_frame:
  "plain ap v \<Longrightarrow> v \<noteq> u \<Longrightarrow>
     cart_of ap (Some (snd (add_line ap c u l))) v = cart_of ap (Some c) v"
  by (rule plain_cart_of_cong) (simp_all add: add_line_own)

lemma assign_array_frame:
  "plain ap v \<Longrightarrow> v \<noteq> u \<Longrightarrow>
     cart_of ap (Some (assign_array c u ls)) v = cart_of ap (Some c) v"
  by (rule plain_cart_of_cong) (simp_all add: assign_array_own)

lemma frame_post_cart:
  assumes "plain ap v" and "v \<noteq> u"
  shows "untouched ap st (snd (mock_post_cart catalog ap u i q st)) v"
proof -
  let ?c = "case carts st of None \<Rightarrow> \<lparr>own = Map.empty, proto = None\<rparr> | Some c \<Rightarrow> c"
  have "cart_of ap (Some (snd (add_line ap ?c u l))) v = cart_of ap (carts st) v" for l
  proof -
    have "cart_of ap (Some (snd (add_line ap ?c u l))) v = cart_of ap (Some ?c) v"
      by (rule add_line_frame [OF assms])
    also have "\<dots> = cart_of ap (carts st) v"
      by (rule cart_of_created [OF assms(1)])
    finally show ?thesis .
  qed
  then show ?thesis
    by (simp add: untouched_def mock_post_cart_cases split_beta
        split: axios.splits option.splits)
qed

lemma frame_get_cart_items: "untouched ap st (snd (mock_get_cart_items sci ap u st)) v"
  by (simp add: untouched_def mock_get_cart_items_def split: option.splits)

lemma frame_delete_cart_items:
  assumes "plain ap v" and "v \<noteq> u"
  shows "untouched ap st (snd (mock_delete_cart_items ap u i st)) v"
  by (simp add: untouched_def mock_delete_cart_items_def Let_def assign_array_frame [OF assms]
      split: option.splits)

lemma frame_post_checkout:
  assumes "plain ap v" and "v \<noteq> u"
  shows "untouched ap st (snd (mock_post_checkout ap u st)) v"
  by (simp add: untouched_def mock_post_checkout_def assign_flag_other [OF assms(2)]
      assign_array_frame [OF assms] split: option.splits)

lemma frame_post_payment:
  "v \<noteq> u \<Longrightarrow> untouched ap st (snd (mock_post_payment u st)) v"
  by (simp add: untouched_def mock_post_payment_def assign_flag_other)

lemma mock_authMiddleware_Next:
  "mock_authMiddleware verify req = (calls, Next w) \<Longrightarrow> w = x_user req \<and> present (x_user req)"
  by (auto simp: mock_authMiddleware_def Let_def split: if_splits axios.splits option.splits)

text \<open>Whatever user \<open>u\<close> does in the storefront of the mock composition (add, list,
  remove, checkout, pay; accepted or refused; under any name, \<open>__proto__\<close> included), the
  cart contents and the checkout flag of every other user \<open>v\<close> with a plain name stay
  what they were; so they do when the request of \<open>u\<close> goes through \<open>authMiddleware\<close>
  first.\<close>

lemma plain_users_untouched:
  assumes "plain ap v" and "v \<noteq> u"
  shows "untouched ap st (snd (mock_post_cart catalog ap u i q st)) v"
    and "untouched ap st (snd (mock_get_cart_items sci ap u st)) v"
    and "untouched ap st (snd (mock_delete_cart_items ap u i st)) v"
    and "untouched ap st (snd (mock_post_checkout ap u st)) v"
    and "untouched ap st (snd (mock_post_payment u st)) v"
    and "x_user req = Some u \<Longrightarrow>
           untouched ap st (snd (snd (mock_serve verify catalog sci ap req st))) v"
proof -
  note fr = frame_post_cart [OF assms] frame_delete_cart_items [OF assms]
    frame_post_checkout [OF assms] frame_post_payment [OF assms(2)] frame_get_cart_items
  have same: "untouched ap st st v" by (simp add: untouched_def)
  show "untouched ap st (snd (mock_post_cart catalog ap u i q st)) v"
    and "untouched ap st (snd (mock_get_cart_items sci ap u st)) v"
    and "untouched ap st (snd (mock_delete_cart_items ap u i st)) v"
    and "untouched ap st (snd (mock_post_checkout ap u st)) v"
    and "untouched ap st (snd (mock_post_payment u st)) v"
    by (rule fr)+
  show "untouched ap st (snd (snd (mock_serve verify catalog sci ap req st))) v"
    if xu: "x_user req = Some u"
  proof (cases "mock_authMiddleware verify req :: upcall list \<times> cart_line outcome")
    case (Pair calls out)
    show ?thesis
    proof (cases out)
      case (Respond r)
      with Pair same show ?thesis by (simp add: mock_serve_def)
    next
      case Unhandled
      with Pair same show ?thesis by (simp add: mock_serve_def)
    next
      case (Next w)
      with Pair mock_authMiddleware_Next have "w = x_user req" by blast
      with xu have w: "str_of w = u" by (simp add: str_of_def)
      from Pair Next w show ?thesis
        by (cases "route req") (simp_all add: mock_serve_def split_beta fr)
    qed
  qed
qed

text \<open>
  C10 at a checkout under the name \<open>__proto__\<close>.  Once \<open>global.carts\<close> exists (here after
  an add by \<open>alice\<close>), the gate of \<open>POST /checkout\<close> reads \<open>global.carts['__proto__']\<close>, which
  is \<open>Object.prototype\<close> and has no \<open>length\<close>, lets the request pass, and
  \<open>global.carts['__proto__'] = []\<close> makes an array the prototype of \<open>global.carts\<close>.  The
  user \<open>push\<close>, who has added no line and whose checkout was answered 400 before, now
  finds \<open>Array.prototype.push\<close> under their name: their listing is a 500 where it was
  the empty list, and their checkout is answered 200 and sets their checkout flag.
\<close>

theorem checkout_as_proto_reaches_other_user:
  "(let ap = [''push'' \<mapsto> 1];
        s0 = \<lparr>carts = None, checkoutCompleted = Map.empty\<rparr>;
        (r1, s1) = mock_post_cart (\<lambda>i. Resolved (JObj [])) ap ''alice'' (JNum 1) (JNum 2) s0;
        (r2, s2) = mock_get_cart_items (\<lambda>_. []) ap ''push'' s1;
        (r3, s3) = mock_post_checkout ap ''push'' s2;
        (r4, s4) = mock_post_checkout ap ''__proto__'' s3;
        (r5, s5) = mock_get_cart_items (\<lambda>_. []) ap ''push'' s4;
        (r6, s6) = mock_post_checkout ap ''push'' s5
    in (map status [r1, r2, r3, r4, r5, r6],
        map_option proto (carts s3), map_option proto (carts s4),
        checkoutCompleted s6 ''push''))
     = ([200, 200, 400, 200, 500, 200], Some None, Some (Some []), Some True)"
  by (simp add: mock_post_cart_def mock_get_cart_items_def mock_post_checkout_def
      add_line_def lookup_def inherited_def from_Object_prototype_def Object_prototype_def
      array_index_def numeric_name_def is_digit_def
      assign_array_def assign_flag_def Let_def)

theorem checkout_as_proto_reaches_other_user_witness:
  "fst (let ap = [''push'' \<mapsto> 1];
        s0 = \<lparr>carts = None, checkoutCompleted = Map.empty\<rparr>;
        (r1, s1) = mock_post_cart (\<lambda>i. Resolved (JObj [])) ap ''alice'' (JNum 1) (JNum 2) s0;
        (r2, s2) = mock_get_cart_items (\<lambda>_. []) ap ''push'' s1;
        (r3, s3) = mock_post_checkout ap ''push'' s2;
        (r4, s4) = mock_post_checkout ap ''__proto__'' s3;
        (r5, s5) = mock_get_cart_items (\<lambda>_. []) ap ''push'' s4;
        (r6, s6) = mock_post_checkout ap ''push'' s5
    in (map status [r1, r2, r3, r4, r5, r6],
        map_option proto (carts s3), map_option proto (carts s4),
        checkoutCompleted s6 ''push''))
     = [200, 200, 400, 200, 500, 200]"
  by (simp only: checkout_as_proto_reaches_other_user fst_conv)

subsection \<open>The ordinary users of the states reached\<close>

text \<open>A plain name is an ordinary user of the start state, and every handler, called for
  any user, leaves an ordinary user ordinary: in the states the storefronts reach, the
  ordinary users are the users with a plain name.\<close>

lemma ordinary_start: "ordinary ap None v \<longleftrightarrow> plain ap v"
  by (simp add: ordinary_def)

lemma ordinary_own_cong:
  "own c' v = own c v \<Longrightarrow> ordinary ap (Some c') v \<longleftrightarrow> ordinary ap (Some c) v"
  by (simp add: ordinary_def)

lemma ordinary_created:
  "ordinary ap co v \<Longrightarrow>
     ordinary ap (Some (case co of None \<Rightarrow> \<lparr>own = Map.empty, proto = None\<rparr> | Some c \<Rightarrow> c)) v"
  by (cases co) (simp_all add: ordinary_def)

lemma ordinary_after_add_line:
  assumes "ordinary ap (Some c) v"
  shows "ordinary ap (Some (snd (add_line ap c u l))) v"
proof (cases "v = u")
  case True
  with assms have o: "ordinary ap (Some c) u" by simp
  have p: "plain ap u" using o by (rule ordinary_plain)
  have "ordinary ap (Some (snd (add_line ap c u l))) u"
    by (simp only: ordinary_add_line [OF o] snd_conv ordinary_own_update [OF p])
  with True show ?thesis by simp
next
  case False
  then have "own (snd (add_line ap c u l)) v = own c v" by (rule add_line_own)
  from ordinary_own_cong [OF this] assms show ?thesis by blast
qed

lemma ordinary_after_assign_array:
  assumes "ordinary ap (Some c) v"
  shows "ordinary ap (Some (assign_array c u ls)) v"
proof (cases "v = u")
  case True
  with assms have o: "ordinary ap (Some c) u" by simp
  have p: "plain ap u" using o by (rule ordinary_plain)
  have "ordinary ap (Some (assign_array c u ls)) u"
    by (simp only: plain_assign_array [OF p] ordinary_own_update [OF p])
  with True show ?thesis by simp
next
  case False
  then have "own (assign_array c u ls) v = own c v" by (rule assign_array_own)
  from ordinary_own_cong [OF this] assms show ?thesis by blast
qed

lemma ordinary_kept:
  assumes "ordinary ap (carts st) v"
  shows "ordinary ap (carts (snd (mock_post_cart catalog ap u i q st))) v"
    and "ordinary ap (carts (snd (mock_get_cart_items sci ap u st))) v"
    and "ordinary ap (carts (snd (mock_delete_cart_items ap u i st))) v"
    and "ordinary ap (carts (snd (mock_post_checkout ap u st))) v"
    and "ordinary ap (carts (snd (mock_post_payment u st))) v"
proof -
  have a: "ordinary ap (Some (snd (add_line ap
      (case carts st of None \<Rightarrow> \<lparr>own = Map.empty, proto = None\<rparr> | Some c \<Rightarrow> c) u l))) v" for l
    by (rule ordinary_after_add_line) (rule ordinary_created [OF assms])
  show "ordinary ap (carts (snd (mock_post_cart catalog ap u i q st))) v"
    using assms a
    by (simp add: mock_post_cart_cases split_beta split: axios.splits option.splits)
  show "ordinary ap (carts (snd (mock_get_cart_items sci ap u st))) v"
    using assms by (auto simp: mock_get_cart_items_def split: option.splits)
  show "ordinary ap (carts (snd (mock_delete_cart_items ap u i st))) v"
    using assms
    by (auto simp: mock_delete_cart_items_def Let_def ordinary_after_assign_array
        split: option.splits)
  show "ordinary ap (carts (snd (mock_post_checkout ap u st))) v"
    using assms
    by (auto simp: mock_post_checkout_def ordinary_after_assign_array split: option.splits)
  show "ordinary ap (carts (snd (mock_post_payment u st))) v"
    using assms by (simp add: mock_post_payment_def)
qed

lemma basic_ordinary_kept:
  assumes "ordinary ap b v"
  shows "ordinary ap (snd (basic_post_cart ap u i q b)) v"
    and "ordinary ap (snd (basic_post_checkout ap u b)) v"
    and "ordinary ap (snd (basic_post_payment u b)) v"
proof -
  have a: "ordinary ap (Some (snd (add_line ap
      (case b of None \<Rightarrow> \<lparr>own = Map.empty, proto = None\<rparr> | Some c \<Rightarrow> c) u l))) v" for l
    by (rule ordinary_after_add_line) (rule ordinary_created [OF assms])
  show "ordinary ap (snd (basic_post_cart ap u i q b)) v"
    using assms a
    by (simp add: basic_post_cart_def Let_def split_beta split: option.splits)
  show "ordinary ap (snd (basic_post_checkout ap u b)) v"
    using assms
    by (auto simp: basic_post_checkout_def ordinary_after_assign_array split: option.splits)
  show "ordinary ap (snd (basic_post_payment u b)) v"
    using assms by (simp add: basic_post_payment_def)
qed

end
